theory Spec2Isabelle
  imports Main "HOL-Library.Multiset" "HOL-Library.Product_Lexorder"
begin

section \<open>Data model (shared/schema.ts)\<close>

text \<open>
  A JavaScript \<open>Date\<close> and a Postgres \<open>timestamp\<close> are a number of milliseconds since
  the epoch. A Postgres \<open>date\<close> (and the text \<open>YYYY-MM-DD\<close> the code passes around for
  it) is the number of the calendar day since the epoch, in UTC: the two are in bijection,
  and the order of the days is the order of the column.
  An invalid \<open>Date\<close> is \<open>None\<close>.
\<close>

type_synonym timestamp = int
type_synonym day = int
type_synonym jsdate = "timestamp option"

record employee =
  e_id :: string
  e_employeeId :: string
  e_employeeName :: string
  e_passwordHash :: string
  e_createdAt :: timestamp
  e_updatedAt :: timestamp

record dailyReport =
  r_id :: string
  r_employeeId :: string
  r_employeeName :: string
  r_numberOfDials :: int
  r_connectedCalls :: int
  r_positiveProspect :: int
  r_deadCalls :: int
  r_demos :: int
  r_admission :: int
  r_clientVisit :: int
  r_clientClosing :: int
  r_backdoorCalls :: int
  r_postersDone :: int
  r_submissionDate :: day
  r_createdAt :: timestamp

record admin =
  a_id :: string
  a_username :: string
  a_passwordHash :: string
  a_createdAt :: timestamp

record session =
  s_id :: string
  s_userId :: string
  s_userType :: string
  s_expiresAt :: timestamp
  s_createdAt :: timestamp

text \<open>The four tables. A table is the list of its rows, in insertion order.\<close>

record db =
  employees :: "employee list"
  dailyReports :: "dailyReport list"
  admins :: "admin list"
  sessions :: "session list"

text \<open>What a store operation can throw.\<close>

datatype failure =
    RangeError             \<comment> \<open>\<open>toISOString\<close> of an invalid \<open>Date\<close>\<close>
  | UniqueViolation        \<comment> \<open>a primary key or a \<open>unique()\<close> column\<close>
  | OutOfRange             \<comment> \<open>Postgres: a LIMIT or OFFSET that is no 64-bit integer\<close>
  | NegativeOffset         \<comment> \<open>Postgres: OFFSET must not be negative\<close>

text \<open>\<open>const [row] = await db.select()...\<close>: the first row, or \<open>undefined\<close>.\<close>

fun first_row :: "'a list \<Rightarrow> 'a option" where
  "first_row [] = None"
| "first_row (x # _) = Some x"

text \<open>\<open>d.toISOString().split('T')[0]\<close>: the UTC day of a date; throws on an invalid one.\<close>

definition utc_day :: "timestamp \<Rightarrow> day" where
  "utc_day t = t div 86400000"

fun iso_day :: "jsdate \<Rightarrow> failure + day" where
  "iso_day None = Inl RangeError"
| "iso_day (Some t) = Inr (utc_day t)"

text \<open>\<open>new Date('YYYY-MM-DD')\<close>: midnight UTC of that day.\<close>

definition date_of_day :: "day \<Rightarrow> jsdate" where
  "date_of_day d = Some (d * 86400000)"

section \<open>Sessions (server/storage.ts)\<close>

text \<open>
  \<open>createSession\<close>: the token \<open>sess_<Date.now()>_<random>\<close> is the argument \<open>sessionId\<close>;
  \<open>setDate(getDate() + 7)\<close> is seven days of 24 hours (a server clock without daylight
  saving shifts).
\<close>

definition createSession :: "db \<Rightarrow> timestamp \<Rightarrow> string \<Rightarrow> string \<Rightarrow> string \<Rightarrow> failure + (session \<times> db)" where
  "createSession st now sessionId userId userType =
     (let expiresAt = now + 7 * 86400000;
          row = \<lparr>s_id = sessionId, s_userId = userId, s_userType = userType,
                 s_expiresAt = expiresAt, s_createdAt = now\<rparr>
      in if sessionId \<in> set (map s_id (sessions st)) then Inl UniqueViolation
         else Inr (row, st\<lparr>sessions := sessions st @ [row]\<rparr>))"

definition getSession :: "db \<Rightarrow> timestamp \<Rightarrow> string \<Rightarrow> session option" where
  "getSession st now sessionId =
     first_row (filter (\<lambda>s. s_id s = sessionId \<and> s_expiresAt s \<ge> now) (sessions st))"

definition deleteSession :: "db \<Rightarrow> string \<Rightarrow> db" where
  "deleteSession st sessionId =
     st\<lparr>sessions := filter (\<lambda>s. \<not> (s_id s = sessionId)) (sessions st)\<rparr>"

definition cleanExpiredSessions :: "db \<Rightarrow> timestamp \<Rightarrow> db" where
  "cleanExpiredSessions st now =
     st\<lparr>sessions := filter (\<lambda>s. \<not> (s_expiresAt s \<le> now)) (sessions st)\<rparr>"

section \<open>Accounts (server/storage.ts)\<close>

definition getEmployee :: "db \<Rightarrow> string \<Rightarrow> employee option" where
  "getEmployee st i = first_row (filter (\<lambda>e. e_id e = i) (employees st))"

definition getEmployeeByEmployeeId :: "db \<Rightarrow> string \<Rightarrow> employee option" where
  "getEmployeeByEmployeeId st employeeId =
     first_row (filter (\<lambda>e. e_employeeId e = employeeId) (employees st))"

definition getAdmin :: "db \<Rightarrow> string \<Rightarrow> admin option" where
  "getAdmin st i = first_row (filter (\<lambda>a. a_id a = i) (admins st))"

definition getAdminByUsername :: "db \<Rightarrow> string \<Rightarrow> admin option" where
  "getAdminByUsername st username =
     first_row (filter (\<lambda>a. a_username a = username) (admins st))"

text \<open>
  \<open>bcrypt\<close> is a library: \<open>bcrypt.compare\<close> is the parameter \<open>compare\<close> (plaintext, then
  digest), and \<open>bcrypt.hash(p, 10)\<close> is the parameter \<open>hash\<close> applied to the random salt of
  the call and the plaintext.
\<close>

definition validateEmployeeCredentials ::
  "(string \<Rightarrow> string \<Rightarrow> bool) \<Rightarrow> db \<Rightarrow> string \<Rightarrow> string \<Rightarrow> employee option" where
  "validateEmployeeCredentials compare st employeeId password =
     (case getEmployeeByEmployeeId st employeeId of
        None \<Rightarrow> None
      | Some employee \<Rightarrow>
          if compare password (e_passwordHash employee) then Some employee else None)"

definition validateAdminCredentials ::
  "(string \<Rightarrow> string \<Rightarrow> bool) \<Rightarrow> db \<Rightarrow> string \<Rightarrow> string \<Rightarrow> admin option" where
  "validateAdminCredentials compare st username password =
     (case getAdminByUsername st username of
        None \<Rightarrow> None
      | Some adm \<Rightarrow> if compare password (a_passwordHash adm) then Some adm else None)"

section \<open>Requests and responses (server/routes.ts)\<close>

text \<open>
  A value of a JSON body, as far as the schemas look at it; a field that is absent is
  \<open>None\<close>. Numbers are integers here: a fraction passes \<open>z.number()\<close> and is then refused
  by the integer column, which this model leaves out.
\<close>

datatype jv = JNull | JBool bool | JNum int | JStr string

text \<open>
  A response is its status and its JSON body. \<open>Invalid\<close> is
  \<open>{message: "Invalid input", errors}\<close> with the paths of the fields zod refused.
\<close>

datatype json =
    Msg string
  | Invalid "string list"
  | EmployeeLogin string string string string
  | AdminLogin string string string
  | EmployeeInfo string string string
  | AdminInfo string string
  | Submitted dailyReport

type_synonym response = "nat \<times> json"

text \<open>\<open>req.session\<close>, set by the authentication middleware.\<close>

record auth =
  sessionId :: string
  userId :: string
  userType :: string

text \<open>\<open>s.replace(pat, rep)\<close> with a string pattern: the first occurrence only.\<close>

fun replace_first :: "string \<Rightarrow> string \<Rightarrow> string \<Rightarrow> string" where
  "replace_first pat rep [] = (if pat = [] then rep else [])"
| "replace_first pat rep (c # cs) =
     (if take (length pat) (c # cs) = pat then rep @ drop (length pat) (c # cs)
      else c # replace_first pat rep cs)"

text \<open>
  The middleware answers itself (\<open>Inl\<close>) or calls \<open>next()\<close> with \<open>req.session\<close> set
  (\<open>Inr\<close>). The argument is the \<open>Authorization\<close> header. The store does not fail on a
  read here, so the \<open>catch\<close> branch ("Authentication failed") has no case.
\<close>

definition authenticateEmployee :: "db \<Rightarrow> timestamp \<Rightarrow> string option \<Rightarrow> response + auth" where
  "authenticateEmployee st now authorization =
     (case map_option (replace_first ''Bearer '' []) authorization of
        None \<Rightarrow> Inl (401, Msg ''No session token provided'')
      | Some sid \<Rightarrow>
          if sid = [] then Inl (401, Msg ''No session token provided'')
          else (case getSession st now sid of
                  None \<Rightarrow> Inl (401, Msg ''Invalid or expired session'')
                | Some s \<Rightarrow>
                    if s_userType s \<noteq> ''employee''
                    then Inl (401, Msg ''Invalid or expired session'')
                    else Inr \<lparr>sessionId = s_id s, userId = s_userId s,
                               userType = s_userType s\<rparr>))"

definition authenticateAdmin :: "db \<Rightarrow> timestamp \<Rightarrow> string option \<Rightarrow> response + auth" where
  "authenticateAdmin st now authorization =
     (case map_option (replace_first ''Bearer '' []) authorization of
        None \<Rightarrow> Inl (401, Msg ''No session token provided'')
      | Some sid \<Rightarrow>
          if sid = [] then Inl (401, Msg ''No session token provided'')
          else (case getSession st now sid of
                  None \<Rightarrow> Inl (401, Msg ''Invalid or expired session'')
                | Some s \<Rightarrow>
                    if s_userType s \<noteq> ''admin''
                    then Inl (401, Msg ''Invalid or expired session'')
                    else Inr \<lparr>sessionId = s_id s, userId = s_userId s,
                               userType = s_userType s\<rparr>))"

text \<open>
  \<open>app.post(path, middleware, handler)\<close>: the handler runs only when the middleware
  called \<open>next()\<close>; otherwise the middleware's response is the response and the store is
  as it was.
\<close>

definition guarded ::
  "(db \<Rightarrow> timestamp \<Rightarrow> string option \<Rightarrow> response + auth) \<Rightarrow> (auth \<Rightarrow> db \<Rightarrow> response \<times> db)
     \<Rightarrow> db \<Rightarrow> timestamp \<Rightarrow> string option \<Rightarrow> response \<times> db" where
  "guarded middleware handler st now authorization =
     (case middleware st now authorization of
        Inl resp \<Rightarrow> (resp, st)
      | Inr a \<Rightarrow> handler a st)"

text \<open>\<open>employeeLoginSchema\<close> and \<open>adminLoginSchema\<close>: two non-empty strings.\<close>

record employeeLoginBody =
  l_employeeId :: "jv option"
  l_password :: "jv option"

record adminLoginBody =
  l_username :: "jv option"
  l_adminPassword :: "jv option"

fun nonempty_string :: "jv option \<Rightarrow> bool" where
  "nonempty_string (Some (JStr s)) = (s \<noteq> [])"
| "nonempty_string _ = False"

fun string_of :: "jv option \<Rightarrow> string" where
  "string_of (Some (JStr s)) = s"
| "string_of _ = []"

definition employeeLoginSchema_parse :: "employeeLoginBody \<Rightarrow> string list + (string \<times> string)" where
  "employeeLoginSchema_parse b =
     (let issues = (if nonempty_string (l_employeeId b) then [] else [''employeeId''])
                 @ (if nonempty_string (l_password b) then [] else [''password''])
      in if issues = [] then Inr (string_of (l_employeeId b), string_of (l_password b))
         else Inl issues)"

definition adminLoginSchema_parse :: "adminLoginBody \<Rightarrow> string list + (string \<times> string)" where
  "adminLoginSchema_parse b =
     (let issues = (if nonempty_string (l_username b) then [] else [''username''])
                 @ (if nonempty_string (l_adminPassword b) then [] else [''password''])
      in if issues = [] then Inr (string_of (l_username b), string_of (l_adminPassword b))
         else Inl issues)"

text \<open>
  \<open>POST /api/employee/login\<close> and \<open>POST /api/admin/login\<close>. \<open>tok\<close> is the token the call
  of \<open>createSession\<close> generates. A failure of the store is the 500 of the \<open>catch\<close>.
\<close>

definition employee_login ::
  "(string \<Rightarrow> string \<Rightarrow> bool) \<Rightarrow> db \<Rightarrow> timestamp \<Rightarrow> string \<Rightarrow> employeeLoginBody \<Rightarrow> response \<times> db" where
  "employee_login compare st now tok b =
     (case employeeLoginSchema_parse b of
        Inl issues \<Rightarrow> ((400, Invalid issues), st)
      | Inr (employeeId, password) \<Rightarrow>
          (case validateEmployeeCredentials compare st employeeId password of
             None \<Rightarrow> ((401, Msg ''Invalid employee ID or password''), st)
           | Some employee \<Rightarrow>
               (case createSession st now tok (e_id employee) ''employee'' of
                  Inl _ \<Rightarrow> ((500, Msg ''Internal server error''), st)
                | Inr (s, st') \<Rightarrow>
                    ((200, EmployeeLogin (s_id s) (e_id employee) (e_employeeId employee)
                             (e_employeeName employee)), st'))))"

definition admin_login ::
  "(string \<Rightarrow> string \<Rightarrow> bool) \<Rightarrow> db \<Rightarrow> timestamp \<Rightarrow> string \<Rightarrow> adminLoginBody \<Rightarrow> response \<times> db" where
  "admin_login compare st now tok b =
     (case adminLoginSchema_parse b of
        Inl issues \<Rightarrow> ((400, Invalid issues), st)
      | Inr (username, password) \<Rightarrow>
          (case validateAdminCredentials compare st username password of
             None \<Rightarrow> ((401, Msg ''Invalid username or password''), st)
           | Some adm \<Rightarrow>
               (case createSession st now tok (a_id adm) ''admin'' of
                  Inl _ \<Rightarrow> ((500, Msg ''Internal server error''), st)
                | Inr (s, st') \<Rightarrow>
                    ((200, AdminLogin (s_id s) (a_id adm) (a_username adm)), st'))))"

section \<open>Daily reports: the store (server/storage.ts)\<close>

text \<open>
  \<open>InsertDailyReport\<close>: the row without \<open>id\<close> and \<open>createdAt\<close>; \<open>postersDone\<close> is optional.
\<close>

record insertDailyReport =
  i_employeeId :: string
  i_employeeName :: string
  i_numberOfDials :: int
  i_connectedCalls :: int
  i_positiveProspect :: int
  i_deadCalls :: int
  i_demos :: int
  i_admission :: int
  i_clientVisit :: int
  i_clientClosing :: int
  i_backdoorCalls :: int
  i_postersDone :: "int option"
  i_submissionDate :: day

text \<open>\<open>Partial<InsertDailyReport>\<close>: a field that is not supplied is \<open>None\<close>.\<close>

record partialDailyReport =
  u_employeeId :: "string option"
  u_employeeName :: "string option"
  u_numberOfDials :: "int option"
  u_connectedCalls :: "int option"
  u_positiveProspect :: "int option"
  u_deadCalls :: "int option"
  u_demos :: "int option"
  u_admission :: "int option"
  u_clientVisit :: "int option"
  u_clientClosing :: "int option"
  u_backdoorCalls :: "int option"
  u_postersDone :: "int option"
  u_submissionDate :: "day option"

text \<open>
  \<open>createDailyReport\<close>: \<open>uuid\<close> is what \<open>defaultRandom()\<close> draws for the primary key,
  \<open>createdAt\<close> is \<open>defaultNow()\<close>, and \<open>postersDone\<close> defaults to 0. No other constraint
  is declared on the table. The columns of the counters are 32-bit integers; a larger
  counter, which the store refuses, is left out of this model.
\<close>

definition createDailyReport ::
  "db \<Rightarrow> timestamp \<Rightarrow> string \<Rightarrow> insertDailyReport \<Rightarrow> failure + (dailyReport \<times> db)" where
  "createDailyReport st now uuid insertReport =
     (let report = \<lparr>r_id = uuid,
                     r_employeeId = i_employeeId insertReport,
                     r_employeeName = i_employeeName insertReport,
                     r_numberOfDials = i_numberOfDials insertReport,
                     r_connectedCalls = i_connectedCalls insertReport,
                     r_positiveProspect = i_positiveProspect insertReport,
                     r_deadCalls = i_deadCalls insertReport,
                     r_demos = i_demos insertReport,
                     r_admission = i_admission insertReport,
                     r_clientVisit = i_clientVisit insertReport,
                     r_clientClosing = i_clientClosing insertReport,
                     r_backdoorCalls = i_backdoorCalls insertReport,
                     r_postersDone = (case i_postersDone insertReport of None \<Rightarrow> 0 | Some n \<Rightarrow> n),
                     r_submissionDate = i_submissionDate insertReport,
                     r_createdAt = now\<rparr>
      in if uuid \<in> set (map r_id (dailyReports st)) then Inl UniqueViolation
         else Inr (report, st\<lparr>dailyReports := dailyReports st @ [report]\<rparr>))"

definition checkExistingReport :: "db \<Rightarrow> string \<Rightarrow> jsdate \<Rightarrow> failure + dailyReport option" where
  "checkExistingReport st employeeId date =
     (case iso_day date of
        Inl e \<Rightarrow> Inl e
      | Inr d \<Rightarrow>
          Inr (first_row (filter (\<lambda>r. r_employeeId r = employeeId \<and> r_submissionDate r = d)
                            (dailyReports st))))"

text \<open>\<open>.set(report)\<close>: a supplied field replaces the column, the others stay.\<close>

definition supplied :: "'a option \<Rightarrow> 'a \<Rightarrow> 'a" where
  "supplied new old = (case new of None \<Rightarrow> old | Some v \<Rightarrow> v)"

definition set_report :: "partialDailyReport \<Rightarrow> dailyReport \<Rightarrow> dailyReport" where
  "set_report u r =
     r\<lparr>r_employeeId := supplied (u_employeeId u) (r_employeeId r),
       r_employeeName := supplied (u_employeeName u) (r_employeeName r),
       r_numberOfDials := supplied (u_numberOfDials u) (r_numberOfDials r),
       r_connectedCalls := supplied (u_connectedCalls u) (r_connectedCalls r),
       r_positiveProspect := supplied (u_positiveProspect u) (r_positiveProspect r),
       r_deadCalls := supplied (u_deadCalls u) (r_deadCalls r),
       r_demos := supplied (u_demos u) (r_demos r),
       r_admission := supplied (u_admission u) (r_admission r),
       r_clientVisit := supplied (u_clientVisit u) (r_clientVisit r),
       r_clientClosing := supplied (u_clientClosing u) (r_clientClosing r),
       r_backdoorCalls := supplied (u_backdoorCalls u) (r_backdoorCalls r),
       r_postersDone := supplied (u_postersDone u) (r_postersDone r),
       r_submissionDate := supplied (u_submissionDate u) (r_submissionDate r)\<rparr>"

text \<open>
  \<open>updateDailyReport\<close>: the rows with the id are set, and the first of them is returned
  (\<open>undefined\<close> when there is none). An update that supplies no field at all leaves the
  table as it is, whether or not the query builder accepts it.
\<close>

definition updateDailyReport :: "db \<Rightarrow> string \<Rightarrow> partialDailyReport \<Rightarrow> dailyReport option \<times> db" where
  "updateDailyReport st i report =
     (let rows = map (\<lambda>r. if r_id r = i then set_report report r else r) (dailyReports st)
      in (first_row (filter (\<lambda>r. r_id r = i) rows), st\<lparr>dailyReports := rows\<rparr>))"

definition deleteDailyReport :: "db \<Rightarrow> string \<Rightarrow> bool \<times> db" where
  "deleteDailyReport st i =
     (let rowCount = length (filter (\<lambda>r. r_id r = i) (dailyReports st))
      in (rowCount > 0, st\<lparr>dailyReports := filter (\<lambda>r. \<not> (r_id r = i)) (dailyReports st)\<rparr>))"

text \<open>
  The filters of \<open>getDailyReports\<close>; an argument that is left out is the record of
  \<open>None\<close>s. A \<open>limit\<close> or \<open>offset\<close> of \<open>NaN\<close> is falsy like \<open>undefined\<close>, hence \<open>None\<close>.
\<close>

record filters =
  f_employeeId :: "string option"
  f_startDate :: "jsdate option"
  f_endDate :: "jsdate option"
  f_limit :: "int option"
  f_offset :: "int option"

definition no_filters :: filters where
  "no_filters = \<lparr>f_employeeId = None, f_startDate = None, f_endDate = None,
                  f_limit = None, f_offset = None\<rparr>"

text \<open>The three \<open>conditions.push\<close>; a \<open>Date\<close> object is truthy, an empty string is not.\<close>

definition employee_condition :: "string option \<Rightarrow> (dailyReport \<Rightarrow> bool) list" where
  "employee_condition e =
     (case e of
        None \<Rightarrow> []
      | Some employeeId \<Rightarrow> if employeeId \<noteq> [] then [\<lambda>r. r_employeeId r = employeeId] else [])"

definition start_condition :: "jsdate option \<Rightarrow> failure + (dailyReport \<Rightarrow> bool) list" where
  "start_condition s =
     (case s of
        None \<Rightarrow> Inr []
      | Some startDate \<Rightarrow>
          (case iso_day startDate of
             Inl e \<Rightarrow> Inl e
           | Inr d \<Rightarrow> Inr [\<lambda>r. r_submissionDate r \<ge> d]))"

definition end_condition :: "jsdate option \<Rightarrow> failure + (dailyReport \<Rightarrow> bool) list" where
  "end_condition s =
     (case s of
        None \<Rightarrow> Inr []
      | Some endDate \<Rightarrow>
          (case iso_day endDate of
             Inl e \<Rightarrow> Inl e
           | Inr d \<Rightarrow> Inr [\<lambda>r. r_submissionDate r \<le> d]))"

text \<open>
  \<open>orderBy(desc(submissionDate), desc(createdAt))\<close>. The order of rows that agree on
  both columns is the store's choice; here they keep their order in the table.
\<close>

definition order_reports :: "dailyReport list \<Rightarrow> dailyReport list" where
  "order_reports rows = sort_key (\<lambda>r. (- r_submissionDate r, - r_createdAt r)) rows"

text \<open>
  \<open>if (filters?.limit) query.limit(...)\<close>, \<open>if (filters?.offset) query.offset(...)\<close>: the
  statement is \<open>LIMIT l OFFSET o\<close>, which skips \<open>o\<close> rows and then returns at most \<open>l\<close>.
  The query builder writes \<open>LIMIT\<close> into the statement only for a limit that is not
  negative (a negative one is dropped), and \<open>OFFSET\<close> for every offset it is given. The
  store reads both as 64-bit integers: it refuses a value outside that range when it
  binds the parameters, and a negative offset when it runs the statement.
\<close>

definition truthy_number :: "int option \<Rightarrow> int option" where
  "truthy_number n = (case n of None \<Rightarrow> None | Some k \<Rightarrow> if k \<noteq> 0 then Some k else None)"

definition emitted_limit :: "int option \<Rightarrow> int option" where
  "emitted_limit l = (case l of None \<Rightarrow> None | Some n \<Rightarrow> if n \<ge> 0 then Some n else None)"

definition beyond_bigint :: "int option \<Rightarrow> bool" where
  "beyond_bigint v = (case v of None \<Rightarrow> False | Some n \<Rightarrow> n < - (2 ^ 63) \<or> 2 ^ 63 \<le> n)"

definition limit_offset :: "int option \<Rightarrow> int option \<Rightarrow> 'a list \<Rightarrow> failure + 'a list" where
  "limit_offset l off rows =
     (let lim = emitted_limit (truthy_number l);
          skip = truthy_number off
      in if beyond_bigint lim \<or> beyond_bigint skip then Inl OutOfRange
         else (case skip of
                 None \<Rightarrow>
                   (case lim of
                      None \<Rightarrow> Inr rows
                    | Some n \<Rightarrow> Inr (take (nat n) rows))
               | Some k \<Rightarrow>
                   if k < 0 then Inl NegativeOffset
                   else (case lim of
                           None \<Rightarrow> Inr (drop (nat k) rows)
                         | Some n \<Rightarrow> Inr (take (nat n) (drop (nat k) rows)))))"

definition getDailyReports :: "db \<Rightarrow> filters \<Rightarrow> failure + dailyReport list" where
  "getDailyReports st f =
     (case start_condition (f_startDate f) of
        Inl e \<Rightarrow> Inl e
      | Inr c2 \<Rightarrow>
          (case end_condition (f_endDate f) of
             Inl e \<Rightarrow> Inl e
           | Inr c3 \<Rightarrow>
               (let conditions = employee_condition (f_employeeId f) @ c2 @ c3;
                    rows = (if length conditions > 0
                            then filter (\<lambda>r. list_all (\<lambda>c. c r) conditions) (dailyReports st)
                            else dailyReports st)
                in limit_offset (f_limit f) (f_offset f) (order_reports rows))))"

section \<open>Employees: update (server/storage.ts)\<close>

text \<open>\<open>Partial<InsertEmployee>\<close>; the field \<open>passwordHash\<close> carries the new plaintext.\<close>

record partialEmployee =
  p_employeeId :: "string option"
  p_employeeName :: "string option"
  p_passwordHash :: "string option"

text \<open>
  \<open>updateEmployee\<close>: a truthy \<open>passwordHash\<close> is replaced by its digest, \<open>updatedAt\<close> is
  set on every call, and the column \<open>employee_id\<close> is \<open>unique()\<close>.
\<close>

definition updateEmployee ::
  "(string \<Rightarrow> string \<Rightarrow> string) \<Rightarrow> db \<Rightarrow> timestamp \<Rightarrow> string \<Rightarrow> string \<Rightarrow> partialEmployee
     \<Rightarrow> failure + (employee option \<times> db)" where
  "updateEmployee hash st now salt i updates =
     (let passwordHash =
            (case p_passwordHash updates of
               None \<Rightarrow> None
             | Some p \<Rightarrow> if p \<noteq> [] then Some (hash salt p) else Some p);
          rows = map (\<lambda>e. if e_id e = i
                           then e\<lparr>e_employeeId := supplied (p_employeeId updates) (e_employeeId e),
                                  e_employeeName := supplied (p_employeeName updates) (e_employeeName e),
                                  e_passwordHash := supplied passwordHash (e_passwordHash e),
                                  e_updatedAt := now\<rparr>
                           else e) (employees st)
      in if \<not> distinct (map e_employeeId rows) then Inl UniqueViolation
         else Inr (first_row (filter (\<lambda>e. e_id e = i) rows), st\<lparr>employees := rows\<rparr>))"

section \<open>Report submission (server/routes.ts)\<close>

text \<open>The body of \<open>POST /api/reports/submit\<close>, field by field of \<open>insertDailyReportSchema\<close>.\<close>

record reportBody =
  b_employeeId :: "jv option"
  b_employeeName :: "jv option"
  b_numberOfDials :: "jv option"
  b_connectedCalls :: "jv option"
  b_positiveProspect :: "jv option"
  b_deadCalls :: "jv option"
  b_demos :: "jv option"
  b_admission :: "jv option"
  b_clientVisit :: "jv option"
  b_clientClosing :: "jv option"
  b_backdoorCalls :: "jv option"
  b_postersDone :: "jv option"
  b_submissionDate :: "jv option"

text \<open>\<open>reportData\<close>: what \<open>parse\<close> returns; the date is still the client's text.\<close>

record reportData =
  d_employeeId :: string
  d_employeeName :: string
  d_numberOfDials :: int
  d_connectedCalls :: int
  d_positiveProspect :: int
  d_deadCalls :: int
  d_demos :: int
  d_admission :: int
  d_clientVisit :: int
  d_clientClosing :: int
  d_backdoorCalls :: int
  d_postersDone :: "int option"
  d_submissionDate :: string

fun is_string :: "jv option \<Rightarrow> bool" where
  "is_string (Some (JStr s)) = True"
| "is_string _ = False"

text \<open>\<open>z.number().min(0)\<close>, and the same with \<open>.optional()\<close>.\<close>

fun is_count :: "jv option \<Rightarrow> bool" where
  "is_count (Some (JNum n)) = (n \<ge> 0)"
| "is_count _ = False"

fun is_optional_count :: "jv option \<Rightarrow> bool" where
  "is_optional_count None = True"
| "is_optional_count v = is_count v"

fun number_of :: "jv option \<Rightarrow> int" where
  "number_of (Some (JNum n)) = n"
| "number_of _ = 0"

fun optional_number_of :: "jv option \<Rightarrow> int option" where
  "optional_number_of (Some (JNum n)) = Some n"
| "optional_number_of _ = None"

definition issue :: "bool \<Rightarrow> string \<Rightarrow> string list" where
  "issue ok path = (if ok then [] else [path])"

definition insertDailyReportSchema_parse :: "reportBody \<Rightarrow> string list + reportData" where
  "insertDailyReportSchema_parse b =
     (let issues =
            issue (is_string (b_employeeId b)) ''employeeId''
          @ issue (is_string (b_employeeName b)) ''employeeName''
          @ issue (is_count (b_numberOfDials b)) ''numberOfDials''
          @ issue (is_count (b_connectedCalls b)) ''connectedCalls''
          @ issue (is_count (b_positiveProspect b)) ''positiveProspect''
          @ issue (is_count (b_deadCalls b)) ''deadCalls''
          @ issue (is_count (b_demos b)) ''demos''
          @ issue (is_count (b_admission b)) ''admission''
          @ issue (is_count (b_clientVisit b)) ''clientVisit''
          @ issue (is_count (b_clientClosing b)) ''clientClosing''
          @ issue (is_count (b_backdoorCalls b)) ''backdoorCalls''
          @ issue (is_optional_count (b_postersDone b)) ''postersDone''
          @ issue (is_string (b_submissionDate b)) ''submissionDate''
      in if issues = []
         then Inr \<lparr>d_employeeId = string_of (b_employeeId b),
                    d_employeeName = string_of (b_employeeName b),
                    d_numberOfDials = number_of (b_numberOfDials b),
                    d_connectedCalls = number_of (b_connectedCalls b),
                    d_positiveProspect = number_of (b_positiveProspect b),
                    d_deadCalls = number_of (b_deadCalls b),
                    d_demos = number_of (b_demos b),
                    d_admission = number_of (b_admission b),
                    d_clientVisit = number_of (b_clientVisit b),
                    d_clientClosing = number_of (b_clientClosing b),
                    d_backdoorCalls = number_of (b_backdoorCalls b),
                    d_postersDone = optional_number_of (b_postersDone b),
                    d_submissionDate = string_of (b_submissionDate b)\<rparr>
         else Inl issues)"

text \<open>
  \<open>{...reportData, employeeId, employeeName, submissionDate: today}\<close>: the three fields
  are overwritten, the counters are those of the body.
\<close>

definition spread_report :: "reportData \<Rightarrow> string \<Rightarrow> string \<Rightarrow> day \<Rightarrow> insertDailyReport" where
  "spread_report reportData employeeId employeeName today =
     \<lparr>i_employeeId = employeeId,
      i_employeeName = employeeName,
      i_numberOfDials = d_numberOfDials reportData,
      i_connectedCalls = d_connectedCalls reportData,
      i_positiveProspect = d_positiveProspect reportData,
      i_deadCalls = d_deadCalls reportData,
      i_demos = d_demos reportData,
      i_admission = d_admission reportData,
      i_clientVisit = d_clientVisit reportData,
      i_clientClosing = d_clientClosing reportData,
      i_backdoorCalls = d_backdoorCalls reportData,
      i_postersDone = d_postersDone reportData,
      i_submissionDate = today\<rparr>"

text \<open>
  The handler of \<open>POST /api/reports/submit\<close>, after \<open>authenticateEmployee\<close>. \<open>now\<close> is the
  clock of the request (the handler's \<open>new Date()\<close> and the store's \<open>defaultNow()\<close>), and
  \<open>uuid\<close> the id the store draws for the row.
\<close>

definition submit_handler :: "timestamp \<Rightarrow> string \<Rightarrow> reportBody \<Rightarrow> auth \<Rightarrow> db \<Rightarrow> response \<times> db" where
  "submit_handler now uuid body a st =
     (case getEmployee st (userId a) of
        None \<Rightarrow> ((404, Msg ''Employee not found''), st)
      | Some employee \<Rightarrow>
          (case insertDailyReportSchema_parse body of
             Inl issues \<Rightarrow> ((400, Invalid issues), st)
           | Inr reportData \<Rightarrow>
               (let today = utc_day now in
                case checkExistingReport st (e_employeeId employee) (date_of_day today) of
                  Inl _ \<Rightarrow> ((500, Msg ''Internal server error''), st)
                | Inr (Some existingReport) \<Rightarrow>
                    ((409, Msg ''Report for today already submitted''), st)
                | Inr None \<Rightarrow>
                    (case createDailyReport st now uuid
                            (spread_report reportData (e_employeeId employee)
                               (e_employeeName employee) today) of
                       Inl _ \<Rightarrow> ((500, Msg ''Internal server error''), st)
                     | Inr (report, st') \<Rightarrow> ((200, Submitted report), st')))))"

definition post_reports_submit ::
  "db \<Rightarrow> timestamp \<Rightarrow> string \<Rightarrow> string option \<Rightarrow> reportBody \<Rightarrow> response \<times> db" where
  "post_reports_submit st now uuid authorization body =
     guarded authenticateEmployee (submit_handler now uuid body) st now authorization"

text \<open>The other handlers behind the two middlewares that this file has in full.\<close>

definition logout_handler :: "auth \<Rightarrow> db \<Rightarrow> response \<times> db" where
  "logout_handler a st =
     (if sessionId a \<noteq> [] then ((200, Msg ''Logout successful''), deleteSession st (sessionId a))
      else ((200, Msg ''Logout successful''), st))"

definition employee_me_handler :: "auth \<Rightarrow> db \<Rightarrow> response \<times> db" where
  "employee_me_handler a st =
     (case getEmployee st (userId a) of
        None \<Rightarrow> ((404, Msg ''Employee not found''), st)
      | Some employee \<Rightarrow>
          ((200, EmployeeInfo (e_id employee) (e_employeeId employee)
                   (e_employeeName employee)), st))"

definition admin_me_handler :: "auth \<Rightarrow> db \<Rightarrow> response \<times> db" where
  "admin_me_handler a st =
     (case getAdmin st (userId a) of
        None \<Rightarrow> ((404, Msg ''Admin not found''), st)
      | Some adm \<Rightarrow> ((200, AdminInfo (a_id adm) (a_username adm)), st))"

section \<open>The invariant of the report store\<close>

text \<open>At most one daily report per pair of \<open>employeeId\<close> and \<open>submissionDate\<close>.\<close>

definition one_report_per_day :: "db \<Rightarrow> bool" where
  "one_report_per_day st =
     distinct (map (\<lambda>r. (r_employeeId r, r_submissionDate r)) (dailyReports st))"

section \<open>Report queries: what is selected, in what order, and the page\<close>


text \<open>
  What the code selects: an employee id that is the empty string is no filter. The order
  is by submission date and then creation time, both descending. The page skips the
  offset rows and then keeps at most the limit rows, and a limit of 0 or below does not
  cut.
\<close>

definition selected :: "filters \<Rightarrow> dailyReport \<Rightarrow> bool" where
  "selected f r =
     ((f_employeeId f = None \<or> f_employeeId f = Some [] \<or> f_employeeId f = Some (r_employeeId r))
      \<and> (case f_startDate f of Some (Some t) \<Rightarrow> utc_day t \<le> r_submissionDate r | _ \<Rightarrow> True)
      \<and> (case f_endDate f of Some (Some t) \<Rightarrow> r_submissionDate r \<le> utc_day t | _ \<Rightarrow> True))"


definition page :: "filters \<Rightarrow> 'a list \<Rightarrow> 'a list" where
  "page f rows =
     (let skipped = (case f_offset f of None \<Rightarrow> rows | Some k \<Rightarrow> drop (nat k) rows)
      in case f_limit f of
           None \<Rightarrow> skipped
         | Some n \<Rightarrow> if n \<le> 0 then skipped else take (nat n) skipped)"

text \<open>
  The filters on which the query does not return: a supplied date that is an invalid
  \<open>Date\<close> makes the call throw, and the store refuses a limit of \<open>2^63\<close> or more and an
  offset that is negative or \<open>2^63\<close> or more.
\<close>

definition invalid_date :: "filters \<Rightarrow> bool" where
  "invalid_date f = (f_startDate f = Some None \<or> f_endDate f = Some None)"

definition store_refuses :: "filters \<Rightarrow> bool" where
  "store_refuses f =
     ((case f_limit f of None \<Rightarrow> False | Some n \<Rightarrow> 2 ^ 63 \<le> n)
      \<or> (case f_offset f of None \<Rightarrow> False | Some k \<Rightarrow> k < 0 \<or> 2 ^ 63 \<le> k))"

section \<open>Example states\<close>

text \<open>
  Concrete rows for the instances below. \<open>ex_compare\<close> stands in for \<open>bcrypt.compare\<close>
  there: the digest of \<open>p\<close> is \<open>digest\<close> followed by \<open>p\<close>.
\<close>

definition ex_employee :: employee where
  "ex_employee = \<lparr>e_id = ''u1'', e_employeeId = ''EMP001'', e_employeeName = ''Asha'',
                   e_passwordHash = ''digest1'', e_createdAt = 0, e_updatedAt = 0\<rparr>"

definition ex_admin :: admin where
  "ex_admin = \<lparr>a_id = ''a1'', a_username = ''root'', a_passwordHash = ''digest2'',
                a_createdAt = 0\<rparr>"

definition ex_employee_session :: session where
  "ex_employee_session = \<lparr>s_id = ''sess_1'', s_userId = ''u1'', s_userType = ''employee'',
                           s_expiresAt = 1000, s_createdAt = 0\<rparr>"

definition ex_admin_session :: session where
  "ex_admin_session = \<lparr>s_id = ''sess_2'', s_userId = ''a1'', s_userType = ''admin'',
                        s_expiresAt = 1000, s_createdAt = 0\<rparr>"

definition ex_db :: db where
  "ex_db = \<lparr>employees = [ex_employee], dailyReports = [], admins = [ex_admin],
             sessions = [ex_employee_session, ex_admin_session]\<rparr>"

definition ex_compare :: "string \<Rightarrow> string \<Rightarrow> bool" where
  "ex_compare p h = (h = ''digest'' @ p)"

definition ex_auth :: auth where
  "ex_auth = \<lparr>sessionId = ''sess_1'', userId = ''u1'', userType = ''employee''\<rparr>"

definition ex_body :: reportBody where
  "ex_body = \<lparr>b_employeeId = Some (JStr ''EMP777''), b_employeeName = Some (JStr ''Mallory''),
     b_numberOfDials = Some (JNum 10), b_connectedCalls = Some (JNum 5),
     b_positiveProspect = Some (JNum 1), b_deadCalls = Some (JNum 2), b_demos = Some (JNum 0),
     b_admission = Some (JNum 0), b_clientVisit = Some (JNum 3), b_clientClosing = Some (JNum 1),
     b_backdoorCalls = Some (JNum 4), b_postersDone = None,
     b_submissionDate = Some (JStr ''1999-12-31'')\<rparr>"

definition ex_report :: dailyReport where
  "ex_report = \<lparr>r_id = ''r1'', r_employeeId = ''EMP001'', r_employeeName = ''Asha'',
     r_numberOfDials = 10, r_connectedCalls = 5, r_positiveProspect = 1, r_deadCalls = 2,
     r_demos = 0, r_admission = 0, r_clientVisit = 3, r_clientClosing = 1,
     r_backdoorCalls = 4, r_postersDone = 0, r_submissionDate = 0, r_createdAt = 500\<rparr>"

definition ex_report2 :: dailyReport where
  "ex_report2 = ex_report\<lparr>r_id := ''r2'', r_employeeId := ''EMP002'', r_employeeName := ''Ravi''\<rparr>"

definition ex_report3 :: dailyReport where
  "ex_report3 = \<lparr>r_id = ''r3'', r_employeeId = ''EMP001'', r_employeeName = ''Asha'',
     r_numberOfDials = 1, r_connectedCalls = 1, r_positiveProspect = 1, r_deadCalls = 1,
     r_demos = 1, r_admission = 1, r_clientVisit = 1, r_clientClosing = 1,
     r_backdoorCalls = 1, r_postersDone = 1, r_submissionDate = 0, r_createdAt = 900\<rparr>"

definition ex_two :: db where
  "ex_two = ex_db\<lparr>dailyReports := [ex_report, ex_report2]\<rparr>"

definition no_update :: partialDailyReport where
  "no_update = \<lparr>u_employeeId = None, u_employeeName = None, u_numberOfDials = None,
     u_connectedCalls = None, u_positiveProspect = None, u_deadCalls = None, u_demos = None,
     u_admission = None, u_clientVisit = None, u_clientClosing = None, u_backdoorCalls = None,
     u_postersDone = None, u_submissionDate = None\<rparr>"

definition ex_insert :: insertDailyReport where
  "ex_insert = \<lparr>i_employeeId = ''EMP001'', i_employeeName = ''Asha'', i_numberOfDials = 1,
     i_connectedCalls = 1, i_positiveProspect = 1, i_deadCalls = 1, i_demos = 1,
     i_admission = 1, i_clientVisit = 1, i_clientClosing = 1, i_backdoorCalls = 1,
     i_postersDone = Some 1, i_submissionDate = 0\<rparr>"

definition ex_hash :: "string \<Rightarrow> string \<Rightarrow> string" where
  "ex_hash salt p = ''digest'' @ p"

definition no_employee_update :: partialEmployee where
  "no_employee_update = \<lparr>p_employeeId = None, p_employeeName = None, p_passwordHash = None\<rparr>"

definition ex_renamed :: employee where
  "ex_renamed = ex_employee\<lparr>e_employeeName := ''Asha K'', e_passwordHash := ''digestpw'',
                              e_updatedAt := 2000\<rparr>"

definition ex_old :: dailyReport where
  "ex_old = \<lparr>r_id = ''q1'', r_employeeId = ''EMP001'', r_employeeName = ''Asha'',
     r_numberOfDials = 1, r_connectedCalls = 1, r_positiveProspect = 1, r_deadCalls = 1,
     r_demos = 1, r_admission = 1, r_clientVisit = 1, r_clientClosing = 1,
     r_backdoorCalls = 1, r_postersDone = 0, r_submissionDate = 10, r_createdAt = 864000500\<rparr>"

definition ex_mid :: dailyReport where
  "ex_mid = ex_old\<lparr>r_id := ''q2'', r_submissionDate := 11, r_createdAt := 950400100\<rparr>"

definition ex_other :: dailyReport where
  "ex_other = ex_old\<lparr>r_id := ''q3'', r_employeeId := ''EMP002'', r_employeeName := ''Ravi'',
     r_submissionDate := 11, r_createdAt := 950400900\<rparr>"

definition ex_new :: dailyReport where
  "ex_new = ex_old\<lparr>r_id := ''q4'', r_submissionDate := 12, r_createdAt := 1036800700\<rparr>"

definition ex_reports :: db where
  "ex_reports = \<lparr>employees = [], dailyReports = [ex_old, ex_mid, ex_other, ex_new],
                  admins = [], sessions = []\<rparr>"


definition ex_colleague :: employee where
  "ex_colleague = \<lparr>e_id = ''u0'', e_employeeId = ''EMP000'', e_employeeName = ''Ravi'',
                    e_passwordHash = ''digest0'', e_createdAt = 0, e_updatedAt = 0\<rparr>"

definition ex_staff :: db where
  "ex_staff = ex_db\<lparr>employees := [ex_colleague, ex_employee]\<rparr>"

lemmas ex_defs = ex_db_def ex_employee_def ex_admin_def ex_employee_session_def
  ex_admin_session_def

lemmas ex_report_defs = ex_reports_def ex_old_def ex_mid_def ex_other_def ex_new_def

section \<open>Helper lemmas\<close>

lemma first_row_None [simp]: "first_row xs = None \<longleftrightarrow> xs = []"
  by (cases xs) simp_all

lemma first_row_Some_mem: "first_row xs = Some x \<Longrightarrow> x \<in> set xs"
  by (cases xs) auto

lemma getSession_None_iff:
  "getSession st now t = None \<longleftrightarrow> (\<forall>s \<in> set (sessions st). s_id s = t \<longrightarrow> s_expiresAt s < now)"
  by (auto simp: getSession_def filter_empty_conv not_le)

lemma getSession_Some:
  "getSession st now t = Some s \<Longrightarrow> s \<in> set (sessions st) \<and> s_id s = t \<and> now \<le> s_expiresAt s"
  unfolding getSession_def by (drule first_row_Some_mem) simp

lemma replace_first_prefix: "replace_first pat [] (pat @ t) = t"
proof (cases "pat @ t")
  case Nil
  then show ?thesis by simp
next
  case (Cons a list)
  have tk: "take (length pat) (a # list) = pat" and dr: "drop (length pat) (a # list) = t"
    by (simp_all flip: Cons)
  have "replace_first pat [] (a # list) = t"
    by (simp add: tk dr del: take_Suc_Cons drop_Suc_Cons)
  then show ?thesis by (simp only: Cons)
qed

lemma iso_day_date_of_day [simp]: "iso_day (date_of_day d) = Inr d"
  by (simp add: date_of_day_def utc_day_def)

lemma guarded_Inr:
  "middleware st now hdr = Inr a \<Longrightarrow> guarded middleware handler st now hdr = handler a st"
  by (simp add: guarded_def)

lemma first_row_filter_Some:
  "x \<in> set xs \<Longrightarrow> P x \<Longrightarrow> \<exists>y. first_row (filter P xs) = Some y"
  by (cases "filter P xs") (auto simp: filter_empty_conv)

lemma submit_handler_200:
  assumes "submit_handler now uuid body a st = ((200, b), st')"
  obtains employee reportData report where
    "getEmployee st (userId a) = Some employee"
    "insertDailyReportSchema_parse body = Inr reportData"
    "checkExistingReport st (e_employeeId employee) (date_of_day (utc_day now)) = Inr None"
    "createDailyReport st now uuid
       (spread_report reportData (e_employeeId employee) (e_employeeName employee) (utc_day now))
     = Inr (report, st')"
    "b = Submitted report"
  using assms unfolding submit_handler_def Let_def
  by (auto split: option.splits sum.splits prod.splits)

lemma createDailyReport_Inr:
  assumes "createDailyReport st now uuid ins = Inr (report, st')"
  shows "st' = st\<lparr>dailyReports := dailyReports st @ [report]\<rparr>"
    and "r_employeeId report = i_employeeId ins"
    and "r_employeeName report = i_employeeName ins"
    and "r_submissionDate report = i_submissionDate ins"
    and "r_id report = uuid" and "r_createdAt report = now"
  using assms unfolding createDailyReport_def Let_def
  by (auto split: if_splits)

lemma submit_handler_existing:
  assumes "getEmployee st (userId a) = Some employee"
      and "r \<in> set (dailyReports st)"
      and "r_employeeId r = e_employeeId employee"
      and "r_submissionDate r = utc_day now"
  shows "snd (submit_handler now uuid body a st) = st"
    and "fst (fst (submit_handler now uuid body a st)) \<in> {400, 409}"
    and "insertDailyReportSchema_parse body = Inr d \<Longrightarrow>
           submit_handler now uuid body a st
             = ((409, Msg ''Report for today already submitted''), st)"
proof -
  obtain y where y: "first_row (filter (\<lambda>r. r_employeeId r = e_employeeId employee
                        \<and> r_submissionDate r = utc_day now) (dailyReports st)) = Some y"
    using first_row_filter_Some [OF assms(2), of "\<lambda>r. r_employeeId r = e_employeeId employee
                        \<and> r_submissionDate r = utc_day now"] assms(3,4) by auto
  have c: "checkExistingReport st (e_employeeId employee) (date_of_day (utc_day now)) = Inr (Some y)"
    by (simp add: checkExistingReport_def y)
  show "snd (submit_handler now uuid body a st) = st"
    by (simp add: submit_handler_def assms(1) c split: sum.splits)
  show "fst (fst (submit_handler now uuid body a st)) \<in> {400, 409}"
    by (simp add: submit_handler_def assms(1) c split: sum.splits)
  show "insertDailyReportSchema_parse body = Inr d \<Longrightarrow>
           submit_handler now uuid body a st
             = ((409, Msg ''Report for today already submitted''), st)"
    by (simp add: submit_handler_def assms(1) c)
qed

lemma parse_override:
  assumes "is_string x" "is_string y" "is_string z"
      and "insertDailyReportSchema_parse body = Inr d"
  shows "\<exists>d'. insertDailyReportSchema_parse
                 (body\<lparr>b_employeeId := x, b_employeeName := y, b_submissionDate := z\<rparr>) = Inr d'
              \<and> spread_report d' e n t = spread_report d e n t"
  using assms
  by (auto simp: insertDailyReportSchema_parse_def Let_def issue_def spread_report_def
           split: if_splits)

lemma ex_first_submit:
  "post_reports_submit ex_db 500 ''r1'' (Some ''Bearer sess_1'') ex_body
     = ((200, Submitted ex_report), ex_db\<lparr>dailyReports := [ex_report]\<rparr>)"
  by (simp add: post_reports_submit_def guarded_def authenticateEmployee_def getSession_def
        submit_handler_def getEmployee_def insertDailyReportSchema_parse_def issue_def
        checkExistingReport_def createDailyReport_def spread_report_def utc_day_def
        date_of_day_def ex_defs ex_body_def ex_report_def Let_def)

lemma ex_authenticate:
  "authenticateEmployee ex_db 500 (Some ''Bearer sess_1'') = Inr ex_auth"
  "authenticateEmployee (ex_db\<lparr>dailyReports := [ex_report]\<rparr>) 900 (Some ''Bearer sess_1'')
     = Inr ex_auth"
  by (simp_all add: authenticateEmployee_def getSession_def ex_defs ex_auth_def)

lemma ex_body_valid: "\<exists>d. insertDailyReportSchema_parse ex_body = Inr d"
  by (simp add: insertDailyReportSchema_parse_def issue_def ex_body_def)

lemma one_report_per_day_append:
  "one_report_per_day (st\<lparr>dailyReports := dailyReports st @ [r]\<rparr>) \<longleftrightarrow>
     one_report_per_day st
     \<and> (\<forall>q \<in> set (dailyReports st).
           \<not> (r_employeeId q = r_employeeId r \<and> r_submissionDate q = r_submissionDate r))"
  by (auto simp: one_report_per_day_def image_iff)

lemma checkExistingReport_None:
  "checkExistingReport st e (date_of_day d) = Inr None \<longleftrightarrow>
     (\<forall>q \<in> set (dailyReports st). \<not> (r_employeeId q = e \<and> r_submissionDate q = d))"
  by (auto simp: checkExistingReport_def filter_empty_conv)

lemma createDailyReport_keeps_invariant:
  assumes "one_report_per_day st"
      and "checkExistingReport st (i_employeeId ins) (date_of_day (i_submissionDate ins)) = Inr None"
      and "createDailyReport st now uuid ins = Inr (r, st')"
  shows "one_report_per_day st'"
  using assms createDailyReport_Inr [OF assms(3)]
  by (simp add: one_report_per_day_append checkExistingReport_None)

lemma submit_handler_keeps_invariant:
  assumes "one_report_per_day st"
  shows "one_report_per_day (snd (submit_handler now uuid body a st))"
proof -
  have "\<And>e d x21 x1 x2. createDailyReport st now uuid
            (spread_report d (e_employeeId e) (e_employeeName e) (utc_day now)) = Inr (x1, x2)
        \<Longrightarrow> checkExistingReport st (e_employeeId e) (date_of_day (utc_day now)) = Inr None
        \<Longrightarrow> one_report_per_day x2"
    by (rule createDailyReport_keeps_invariant [OF assms]) (simp_all add: spread_report_def)
  then show ?thesis
    using assms
    by (auto simp: submit_handler_def Let_def split: option.splits sum.splits prod.splits)
qed



lemma conditions_selected:
  assumes "start_condition (f_startDate f) = Inr c2" and "end_condition (f_endDate f) = Inr c3"
  shows "(if length (employee_condition (f_employeeId f) @ c2 @ c3) > 0
          then filter (\<lambda>r. list_all (\<lambda>c. c r) (employee_condition (f_employeeId f) @ c2 @ c3)) rows
          else rows) = filter (selected f) rows"
  using assms
  by (auto simp: start_condition_def end_condition_def employee_condition_def selected_def
           split: option.splits sum.splits if_splits intro!: filter_cong)

lemma truthy_number_simps:
  "truthy_number None = None"
  "truthy_number (Some 0) = None"
  "k \<noteq> 0 \<Longrightarrow> truthy_number (Some k) = Some k"
  by (simp_all add: truthy_number_def)

lemma limit_offset_page:
  assumes "\<not> store_refuses f"
  shows "limit_offset (f_limit f) (f_offset f) rows = Inr (page f rows)"
  using assms
  by (auto simp: store_refuses_def limit_offset_def truthy_number_def emitted_limit_def
        beyond_bigint_def page_def Let_def split: option.splits)


lemma conditions_valid:
  assumes "\<not> invalid_date f"
  obtains c2 c3 where "start_condition (f_startDate f) = Inr c2"
    and "end_condition (f_endDate f) = Inr c3"
  using assms
  by (cases "f_startDate f"; cases "f_endDate f")
     (auto simp: invalid_date_def start_condition_def end_condition_def)

lemma getDailyReports_rows:
  assumes "\<not> invalid_date f"
  shows "getDailyReports st f
           = limit_offset (f_limit f) (f_offset f)
               (order_reports (filter (selected f) (dailyReports st)))"
proof -
  obtain c2 c3 where c: "start_condition (f_startDate f) = Inr c2"
      "end_condition (f_endDate f) = Inr c3"
    using assms by (rule conditions_valid)
  show ?thesis
    unfolding getDailyReports_def
    by (simp only: c sum.case Let_def conditions_selected [OF c])
qed

lemma getDailyReports_valid:
  assumes "\<not> invalid_date f" and "\<not> store_refuses f"
  shows "getDailyReports st f = Inr (page f (order_reports (filter (selected f) (dailyReports st))))"
  by (simp only: getDailyReports_rows [OF assms(1)] limit_offset_page [OF assms(2)])



lemma no_filters_fine: "\<not> invalid_date no_filters" "\<not> store_refuses no_filters"
  by (simp_all add: invalid_date_def store_refuses_def no_filters_def)

lemma selected_no_filters: "selected no_filters r"
  by (simp add: selected_def no_filters_def)

lemma page_no_filters: "page no_filters rows = rows"
  by (simp add: page_def no_filters_def)

lemma ex_order: "order_reports [ex_old, ex_mid, ex_other, ex_new] = [ex_new, ex_other, ex_mid, ex_old]"
  by (simp add: order_reports_def ex_report_defs)

lemma ex_selected_all: "filter (selected no_filters) (dailyReports ex_reports)
    = [ex_old, ex_mid, ex_other, ex_new]"
  by (simp add: selected_no_filters ex_reports_def)

lemma ex_all: "getDailyReports ex_reports no_filters = Inr [ex_new, ex_other, ex_mid, ex_old]"
  by (simp only: getDailyReports_valid [OF no_filters_fine] page_no_filters ex_selected_all
        ex_order)


lemma limit_offset_zero:
  "limit_offset (Some 0) off rows = limit_offset None off rows"
  "limit_offset l (Some 0) rows = limit_offset l None rows"
  by (simp_all add: limit_offset_def truthy_number_simps)

lemma limit_offset_positive_limit:
  "0 < n \<Longrightarrow> n < 2 ^ 63 \<Longrightarrow>
     limit_offset (Some n) off rows = map_sum id (take (nat n)) (limit_offset None off rows)"
  by (auto simp: limit_offset_def truthy_number_def emitted_limit_def beyond_bigint_def Let_def
           split: option.splits)

lemma limit_offset_positive_offset:
  "0 < k \<Longrightarrow> k < 2 ^ 63 \<Longrightarrow>
     limit_offset None (Some k) rows = map_sum id (drop (nat k)) (limit_offset None None rows)"
  by (auto simp: limit_offset_def truthy_number_def emitted_limit_def beyond_bigint_def Let_def
           split: option.splits)

lemma updateEmployee_Inr:
  assumes "updateEmployee hash st now salt i updates = Inr (res, st')"
  shows "st' = st\<lparr>employees :=
            map (\<lambda>e. if e_id e = i
                      then e\<lparr>e_employeeId := supplied (p_employeeId updates) (e_employeeId e),
                             e_employeeName := supplied (p_employeeName updates) (e_employeeName e),
                             e_passwordHash :=
                               supplied (case p_passwordHash updates of
                                           None \<Rightarrow> None
                                         | Some p \<Rightarrow> if p \<noteq> [] then Some (hash salt p) else Some p)
                                 (e_passwordHash e),
                             e_updatedAt := now\<rparr>
                      else e) (employees st)\<rparr>"
  using assms unfolding updateEmployee_def Let_def
  by (auto split: if_splits)

lemma update_keys_distinct:
  assumes "distinct (map r_id rows)"
      and "distinct (map (\<lambda>r. (r_employeeId r, r_submissionDate r)) rows)"
  shows "distinct (map (\<lambda>r. (r_employeeId r, r_submissionDate r))
                     (map (\<lambda>r. if r_id r = i then set_report u r else r) rows))
         \<longleftrightarrow> (\<forall>r \<in> set rows. \<forall>q \<in> set rows.
                r_id r = i \<and> r_id q \<noteq> i \<longrightarrow>
                  \<not> (r_employeeId q = supplied (u_employeeId u) (r_employeeId r)
                     \<and> r_submissionDate q = supplied (u_submissionDate u) (r_submissionDate r)))"
proof -
  define K where "K = (\<lambda>r::dailyReport. (r_employeeId r, r_submissionDate r))"
  define K' where "K' = (\<lambda>r::dailyReport. (supplied (u_employeeId u) (r_employeeId r),
                                supplied (u_submissionDate u) (r_submissionDate r)))"
  define g where "g = (\<lambda>r::dailyReport. if r_id r = i then K' r else K r)"
  have comp: "map K (map (\<lambda>r. if r_id r = i then set_report u r else r) xs) = map g xs" for xs
    by (simp add: K_def K'_def g_def set_report_def)
  have main: "distinct (map r_id xs) \<Longrightarrow> distinct (map K xs) \<Longrightarrow>
      distinct (map g xs) \<longleftrightarrow> (\<forall>r \<in> set xs. \<forall>q \<in> set xs. r_id r = i \<and> r_id q \<noteq> i \<longrightarrow> K q \<noteq> K' r)"
    for xs
  proof (induction xs)
    case Nil
    then show ?case by simp
  next
    case (Cons a xs)
    have ih: "distinct (map g xs)
        \<longleftrightarrow> (\<forall>r \<in> set xs. \<forall>q \<in> set xs. r_id r = i \<and> r_id q \<noteq> i \<longrightarrow> K q \<noteq> K' r)"
      using Cons by simp
    show ?case
    proof (cases "r_id a = i")
      case True
      from Cons.prems(1) True have "i \<notin> r_id ` set xs"
        by simp
      then have none: "\<forall>q \<in> set xs. r_id q \<noteq> i"
        by blast
      then have same: "map g xs = map K xs"
        by (simp add: g_def)
      have "distinct (map g (a # xs)) \<longleftrightarrow> K' a \<notin> K ` set xs"
        using Cons.prems(2) True by (simp add: same) (simp add: g_def)
      also have "\<dots> \<longleftrightarrow> (\<forall>q \<in> set xs. K q \<noteq> K' a)"
        by (metis image_iff)
      also have "\<dots> \<longleftrightarrow> (\<forall>r \<in> set (a # xs). \<forall>q \<in> set (a # xs).
                              r_id r = i \<and> r_id q \<noteq> i \<longrightarrow> K q \<noteq> K' r)"
        using True none by auto
      finally show ?thesis .
    next
      case False
      have fresh: "K a \<notin> K ` set xs"
        using Cons.prems(2) by simp
      have mem: "K a \<in> g ` set xs \<longleftrightarrow> (\<exists>r \<in> set xs. r_id r = i \<and> K a = K' r)"
      proof
        assume "K a \<in> g ` set xs"
        then obtain r where r: "r \<in> set xs" "K a = g r"
          by blast
        show "\<exists>r \<in> set xs. r_id r = i \<and> K a = K' r"
        proof (cases "r_id r = i")
          case True
          with r show ?thesis by (auto simp: g_def)
        next
          case False
          with r have "K a = K r" by (simp add: g_def)
          with r(1) fresh show ?thesis by blast
        qed
      next
        assume "\<exists>r \<in> set xs. r_id r = i \<and> K a = K' r"
        then obtain r where "r \<in> set xs" "r_id r = i" "K a = K' r"
          by blast
        then have "r \<in> set xs" "K a = g r"
          by (simp_all add: g_def)
        then show "K a \<in> g ` set xs"
          by blast
      qed
      have "distinct (map g (a # xs)) \<longleftrightarrow> K a \<notin> g ` set xs \<and> distinct (map g xs)"
        using False by (simp add: g_def)
      also have "\<dots> \<longleftrightarrow> (\<forall>r \<in> set xs. r_id r = i \<longrightarrow> K a \<noteq> K' r)
                          \<and> (\<forall>r \<in> set xs. \<forall>q \<in> set xs. r_id r = i \<and> r_id q \<noteq> i \<longrightarrow> K q \<noteq> K' r)"
        unfolding mem ih by blast
      also have "\<dots> \<longleftrightarrow> (\<forall>r \<in> set (a # xs). \<forall>q \<in> set (a # xs).
                              r_id r = i \<and> r_id q \<noteq> i \<longrightarrow> K q \<noteq> K' r)"
        using False by auto
      finally show ?thesis .
    qed
  qed
  have "distinct (map g rows)
      \<longleftrightarrow> (\<forall>r \<in> set rows. \<forall>q \<in> set rows. r_id r = i \<and> r_id q \<noteq> i \<longrightarrow> K q \<noteq> K' r)"
    using assms by (intro main) (simp_all add: K_def)
  then show ?thesis
    unfolding comp [symmetric] by (simp add: K_def K'_def)
qed

lemma createDailyReport_fresh:
  assumes "createDailyReport st now uuid ins = Inr (report, st')"
  shows "uuid \<notin> r_id ` set (dailyReports st)"
  using assms unfolding createDailyReport_def Let_def
  by (auto split: if_splits)

lemma createDailyReport_keeps_ids:
  assumes "distinct (map r_id (dailyReports st))"
      and "createDailyReport st now uuid ins = Inr (report, st')"
  shows "distinct (map r_id (dailyReports st'))"
  using assms(1) createDailyReport_fresh [OF assms(2)] createDailyReport_Inr(1,5) [OF assms(2)]
  by simp

lemma submit_handler_keeps_ids:
  assumes "distinct (map r_id (dailyReports st))"
  shows "distinct (map r_id (dailyReports (snd (submit_handler now uuid body a st))))"
  using assms createDailyReport_keeps_ids [OF assms]
  by (auto simp: submit_handler_def Let_def split: option.splits sum.splits prod.splits)

lemma updateDailyReport_keeps_ids:
  "map r_id (dailyReports (snd (updateDailyReport st i u))) = map r_id (dailyReports st)"
  by (simp add: updateDailyReport_def Let_def set_report_def comp_def if_distrib cong: if_cong)

lemma first_row_filter_unique:
  assumes "distinct (map k xs)" and "first_row (filter P xs) = Some y"
      and "x \<in> set xs" and "k x = k y"
  shows "y = x"
proof -
  have "y \<in> set xs"
    using first_row_Some_mem [OF assms(2)] by simp
  with assms(1,3,4) show ?thesis
    by (metis distinct_map inj_onD)
qed

lemma authenticateEmployee_Inr:
  assumes "authenticateEmployee st now hdr = Inr a"
      and "map_option (replace_first ''Bearer '' []) hdr = Some t"
  obtains s where "getSession st now t = Some s" "s_userType s = ''employee''"
    "userId a = s_userId s"
  using assms unfolding authenticateEmployee_def
  by (auto split: option.splits if_splits)

lemma post_reports_submit_200:
  assumes "post_reports_submit st now uuid hdr body = ((200, b), st')"
  obtains a where "authenticateEmployee st now hdr = Inr a"
    "submit_handler now uuid body a st = ((200, b), st')"
proof (cases "authenticateEmployee st now hdr")
  case (Inl resp)
  then have "resp = (200, b)"
    using assms by (simp add: post_reports_submit_def guarded_def)
  with Inl show ?thesis
    by (auto simp: authenticateEmployee_def split: option.splits if_splits)
next
  case (Inr a)
  with assms that show ?thesis
    by (simp add: post_reports_submit_def guarded_def)
qed

lemma ex_staff_submit:
  "post_reports_submit ex_staff 500 ''r1'' (Some ''Bearer sess_1'') ex_body
     = ((200, Submitted ex_report), ex_staff\<lparr>dailyReports := [ex_report]\<rparr>)"
  by (simp add: post_reports_submit_def guarded_def authenticateEmployee_def getSession_def
        submit_handler_def getEmployee_def insertDailyReportSchema_parse_def issue_def
        checkExistingReport_def createDailyReport_def spread_report_def utc_day_def
        date_of_day_def ex_staff_def ex_colleague_def ex_defs ex_body_def ex_report_def Let_def)

section \<open>Sessions: properties\<close>

text \<open>
  C8. \<open>cleanExpiredSessions\<close> at time \<open>now\<close> keeps exactly the session rows whose expiry
  is after \<open>now\<close>, in their order, removes every row whose expiry is at or before \<open>now\<close>,
  and leaves the employees, the daily reports and the admins as they were.
\<close>

theorem cleanExpiredSessions_exact:
  "sessions (cleanExpiredSessions st now) = filter (\<lambda>s. now < s_expiresAt s) (sessions st)
   \<and> set (sessions (cleanExpiredSessions st now)) \<inter> {s. s_expiresAt s \<le> now} = {}
   \<and> set (sessions st) - set (sessions (cleanExpiredSessions st now))
       = {s. s \<in> set (sessions st) \<and> s_expiresAt s \<le> now}
   \<and> employees (cleanExpiredSessions st now) = employees st
   \<and> dailyReports (cleanExpiredSessions st now) = dailyReports st
   \<and> admins (cleanExpiredSessions st now) = admins st"
  by (auto simp: cleanExpiredSessions_def not_le)

text \<open>
  C3. The claim: \<open>getSession\<close> returns the session exactly when a row with the token
  exists and \<open>now\<close> is before its expiry, and a token is as good as absent from
  \<open>now = expiry\<close> on. The code compares with \<open>gte(expiresAt, now)\<close>: at the instant
  \<open>now = expiresAt\<close> the session is still returned, while \<open>cleanExpiredSessions\<close> at
  the same instant deletes the row as expired.
\<close>

theorem getSession_at_expiry:
  "s_expiresAt ex_employee_session = 1000
   \<and> ex_employee_session \<in> set (sessions ex_db)
   \<and> getSession ex_db 1000 ''sess_1'' = Some ex_employee_session
   \<and> getSession (cleanExpiredSessions ex_db 1000) 1000 ''sess_1'' = None"
  by (simp add: getSession_def cleanExpiredSessions_def ex_defs)

section \<open>Report submission: properties\<close>

text \<open>
  C1. When a submission of employee E at a time of day D was answered 200, a second
  submission authenticated as E at a time of the same day D, with a body that passes the
  schema, is answered 409 ("Report for today already submitted") and the store is as
  it was after the first. Whatever the second body is, the store is unchanged and the
  answer is 400 or 409, never a second row.
\<close>

theorem second_submit_conflict:
  assumes first: "post_reports_submit st now1 uuid1 hdr1 body1 = ((200, b1), st')"
      and auth1: "authenticateEmployee st now1 hdr1 = Inr a1"
      and auth2: "authenticateEmployee st' now2 hdr2 = Inr a2"
      and same_employee: "userId a2 = userId a1"
      and same_day: "utc_day now2 = utc_day now1"
      and valid: "insertDailyReportSchema_parse body2 = Inr d2"
  shows "post_reports_submit st' now2 uuid2 hdr2 body2
           = ((409, Msg ''Report for today already submitted''), st')
       \<and> snd (post_reports_submit st' now2 uuid2 hdr2 body3) = st'
       \<and> fst (fst (post_reports_submit st' now2 uuid2 hdr2 body3)) \<in> {400, 409}"
proof -
  from first auth1 have h: "submit_handler now1 uuid1 body1 a1 st = ((200, b1), st')"
    by (simp add: post_reports_submit_def guarded_Inr)
  from h obtain employee reportData report where
    e: "getEmployee st (userId a1) = Some employee" and
    c: "createDailyReport st now1 uuid1
          (spread_report reportData (e_employeeId employee) (e_employeeName employee)
             (utc_day now1)) = Inr (report, st')"
    by (rule submit_handler_200)
  note r = createDailyReport_Inr [OF c]
  have e': "getEmployee st' (userId a2) = Some employee"
    using e by (simp add: r(1) getEmployee_def same_employee)
  have m: "report \<in> set (dailyReports st')"
    by (simp add: r(1))
  have k: "r_employeeId report = e_employeeId employee" "r_submissionDate report = utc_day now2"
    by (simp_all add: r spread_report_def same_day)
  note s = submit_handler_existing [OF e' m k]
  show ?thesis
    using s(1,2) [of uuid2 body3] s(3) [OF valid, of uuid2] auth2
    by (simp add: post_reports_submit_def guarded_Inr)
qed

theorem second_submit_conflict_witness:
  "post_reports_submit ex_db 500 ''r1'' (Some ''Bearer sess_1'') ex_body
     = ((200, Submitted ex_report), ex_db\<lparr>dailyReports := [ex_report]\<rparr>)
   \<and> post_reports_submit (ex_db\<lparr>dailyReports := [ex_report]\<rparr>) 900 ''r2''
        (Some ''Bearer sess_1'') ex_body
     = ((409, Msg ''Report for today already submitted''), ex_db\<lparr>dailyReports := [ex_report]\<rparr>)"
proof -
  obtain d where d: "insertDailyReportSchema_parse ex_body = Inr d"
    using ex_body_valid by blast
  have day: "utc_day 900 = utc_day 500"
    by (simp add: utc_day_def)
  show ?thesis
    using second_submit_conflict [OF ex_first_submit ex_authenticate(1) ex_authenticate(2) refl day d]
      ex_first_submit
    by simp
qed

text \<open>
  C9. When a submission whose header carries the token \<open>t\<close> is answered 200, there is a
  session row with the id \<open>t\<close>, of kind employee and not expired, and an employee row
  whose id is that session's \<open>userId\<close>, and the row appended to the store has the
  \<open>employeeId\<close> and \<open>employeeName\<close> of that employee row and the UTC day of the
  server's clock as \<open>submissionDate\<close>. Where session ids and employee ids are unique
  (they are primary keys), this holds of the session row with the id \<open>t\<close> and the
  employee row with its \<open>userId\<close>. The same request with any other strings in the body's
  \<open>employeeId\<close>, \<open>employeeName\<close> and \<open>submissionDate\<close> gets the same response and
  leaves the same store.
\<close>

theorem submitted_row_from_session:
  assumes ok: "post_reports_submit st now uuid hdr body = ((200, b), st')"
      and token: "map_option (replace_first ''Bearer '' []) hdr = Some t"
  shows "(\<exists>s e report.
            s \<in> set (sessions st) \<and> s_id s = t \<and> s_userType s = ''employee''
            \<and> now \<le> s_expiresAt s
            \<and> e \<in> set (employees st) \<and> e_id e = s_userId s
            \<and> b = Submitted report
            \<and> dailyReports st' = dailyReports st @ [report]
            \<and> r_employeeId report = e_employeeId e
            \<and> r_employeeName report = e_employeeName e
            \<and> r_submissionDate report = utc_day now)
       \<and> (distinct (map s_id (sessions st)) \<and> distinct (map e_id (employees st))
            \<and> s0 \<in> set (sessions st) \<and> s_id s0 = t
            \<and> e0 \<in> set (employees st) \<and> e_id e0 = s_userId s0 \<longrightarrow>
            (\<exists>report. b = Submitted report
               \<and> dailyReports st' = dailyReports st @ [report]
               \<and> r_employeeId report = e_employeeId e0
               \<and> r_employeeName report = e_employeeName e0
               \<and> r_submissionDate report = utc_day now))
       \<and> (is_string x \<and> is_string y \<and> is_string z \<longrightarrow>
            post_reports_submit st now uuid hdr
              (body\<lparr>b_employeeId := x, b_employeeName := y, b_submissionDate := z\<rparr>)
             = ((200, b), st'))"
proof -
  from ok obtain a where auth: "authenticateEmployee st now hdr = Inr a"
      and h: "submit_handler now uuid body a st = ((200, b), st')"
    by (rule post_reports_submit_200)
  from auth token obtain s where s: "getSession st now t = Some s"
      "s_userType s = ''employee''" "userId a = s_userId s"
    by (rule authenticateEmployee_Inr)
  note sm = getSession_Some [OF s(1)]
  from h obtain e reportData report where
    e: "getEmployee st (userId a) = Some e" and
    p: "insertDailyReportSchema_parse body = Inr reportData" and
    x: "checkExistingReport st (e_employeeId e) (date_of_day (utc_day now)) = Inr None" and
    c: "createDailyReport st now uuid
          (spread_report reportData (e_employeeId e) (e_employeeName e) (utc_day now))
        = Inr (report, st')" and
    b: "b = Submitted report"
    by (rule submit_handler_200)
  have em: "e \<in> set (employees st)" "e_id e = s_userId s"
    using first_row_Some_mem [OF e [unfolded getEmployee_def]] s(3) by simp_all
  note r = createDailyReport_Inr [OF c]
  have row: "b = Submitted report \<and> dailyReports st' = dailyReports st @ [report]
      \<and> r_employeeId report = e_employeeId e \<and> r_employeeName report = e_employeeName e
      \<and> r_submissionDate report = utc_day now"
    using b r by (simp add: spread_report_def)
  have 1: "\<exists>s e report.
            s \<in> set (sessions st) \<and> s_id s = t \<and> s_userType s = ''employee''
            \<and> now \<le> s_expiresAt s
            \<and> e \<in> set (employees st) \<and> e_id e = s_userId s
            \<and> b = Submitted report
            \<and> dailyReports st' = dailyReports st @ [report]
            \<and> r_employeeId report = e_employeeId e
            \<and> r_employeeName report = e_employeeName e
            \<and> r_submissionDate report = utc_day now"
    using sm s(2) em row by blast
  have 2: "\<exists>report. b = Submitted report
               \<and> dailyReports st' = dailyReports st @ [report]
               \<and> r_employeeId report = e_employeeId e0
               \<and> r_employeeName report = e_employeeName e0
               \<and> r_submissionDate report = utc_day now"
    if pk: "distinct (map s_id (sessions st))" "distinct (map e_id (employees st))"
      and s0: "s0 \<in> set (sessions st)" "s_id s0 = t"
      and e0: "e0 \<in> set (employees st)" "e_id e0 = s_userId s0"
  proof -
    have "s = s0"
      using first_row_filter_unique [OF pk(1) s(1) [unfolded getSession_def] s0(1)] s0(2) sm
      by simp
    then have "e = e0"
      using first_row_filter_unique [OF pk(2) e [unfolded getEmployee_def] e0(1)] e0(2) em(2)
      by simp
    with row show ?thesis by blast
  qed
  have 3: "post_reports_submit st now uuid hdr
              (body\<lparr>b_employeeId := x, b_employeeName := y, b_submissionDate := z\<rparr>)
             = ((200, b), st')"
    if strings: "is_string x" "is_string y" "is_string z"
  proof -
    obtain d' where
      p': "insertDailyReportSchema_parse
             (body\<lparr>b_employeeId := x, b_employeeName := y, b_submissionDate := z\<rparr>) = Inr d'" and
      sp: "spread_report d' (e_employeeId e) (e_employeeName e) (utc_day now)
            = spread_report reportData (e_employeeId e) (e_employeeName e) (utc_day now)"
      using parse_override [OF strings p] by blast
    have "submit_handler now uuid
               (body\<lparr>b_employeeId := x, b_employeeName := y, b_submissionDate := z\<rparr>) a st
             = ((200, b), st')"
      using x c b by (simp add: submit_handler_def e p' sp)
    then show ?thesis
      using auth by (simp add: post_reports_submit_def guarded_Inr)
  qed
  show ?thesis
    using 1 2 3 by blast
qed

theorem submitted_row_from_session_witness:
  "post_reports_submit ex_staff 500 ''r1'' (Some ''Bearer sess_1'') ex_body
     = ((200, Submitted ex_report), ex_staff\<lparr>dailyReports := [ex_report]\<rparr>)
   \<and> post_reports_submit ex_staff 500 ''r1'' (Some ''Bearer sess_1'')
       (ex_body\<lparr>b_employeeId := Some (JStr ''EMP000''), b_employeeName := Some (JStr ''Ravi''),
                 b_submissionDate := Some (JStr ''1970-01-02'')\<rparr>)
     = ((200, Submitted ex_report), ex_staff\<lparr>dailyReports := [ex_report]\<rparr>)
   \<and> employees ex_staff = [ex_colleague, ex_employee]
   \<and> ex_employee_session \<in> set (sessions ex_staff)
   \<and> s_id ex_employee_session = ''sess_1''
   \<and> e_id ex_employee = s_userId ex_employee_session
   \<and> b_employeeId ex_body = Some (JStr ''EMP777'')
   \<and> r_employeeId ex_report = e_employeeId ex_employee
   \<and> r_employeeName ex_report = e_employeeName ex_employee
   \<and> r_submissionDate ex_report = utc_day 500"
proof -
  have token: "map_option (replace_first ''Bearer '' []) (Some ''Bearer sess_1'') = Some ''sess_1''"
    by simp
  have pk: "distinct (map s_id (sessions ex_staff))" "distinct (map e_id (employees ex_staff))"
    by (simp_all add: ex_staff_def ex_colleague_def ex_defs)
  have rows: "employees ex_staff = [ex_colleague, ex_employee]"
    "ex_employee_session \<in> set (sessions ex_staff)"
    "ex_employee \<in> set (employees ex_staff)"
    by (simp_all add: ex_staff_def ex_db_def)
  have ids: "s_id ex_employee_session = ''sess_1''"
    "e_id ex_employee = s_userId ex_employee_session"
    by (simp_all add: ex_defs)
  have str: "is_string (Some (JStr ''EMP000''))" "is_string (Some (JStr ''Ravi''))"
    "is_string (Some (JStr ''1970-01-02''))"
    by simp_all
  have ex: "b_employeeId ex_body = Some (JStr ''EMP777'')
      \<and> r_employeeId ex_report = e_employeeId ex_employee
      \<and> r_employeeName ex_report = e_employeeName ex_employee
      \<and> r_submissionDate ex_report = utc_day 500"
    by (simp add: ex_body_def ex_report_def ex_employee_def utc_day_def)
  show ?thesis
    using submitted_row_from_session [OF ex_staff_submit token,
        of ex_employee_session ex_employee "Some (JStr ''EMP000'')" "Some (JStr ''Ravi'')"
           "Some (JStr ''1970-01-02'')"]
      pk rows ids str ex ex_staff_submit
    by simp
qed

text \<open>
  C2, as the code has it. In a store where the invariant (at most one report per
  \<open>employeeId\<close> and \<open>submissionDate\<close>) holds and report ids are unique (the primary
  key), the invariant is preserved by the submit endpoint and by \<open>deleteDailyReport\<close>;
  by \<open>updateDailyReport\<close> exactly when no other report holds the pair that the updated
  report has after the update (so also when the update supplies the report's own pair
  again, or moves it to a free pair); and by a successful \<open>createDailyReport\<close> exactly
  when \<open>checkExistingReport\<close> finds no report for the pair it inserts. All four keep the
  report ids unique.
\<close>

theorem report_store_invariant:
  assumes "one_report_per_day st" and "distinct (map r_id (dailyReports st))"
  shows "one_report_per_day (snd (post_reports_submit st now uuid hdr body))
       \<and> one_report_per_day (snd (deleteDailyReport st i))
       \<and> (one_report_per_day (snd (updateDailyReport st i u)) \<longleftrightarrow>
            (\<forall>r \<in> set (dailyReports st). \<forall>q \<in> set (dailyReports st).
               r_id r = i \<and> r_id q \<noteq> i \<longrightarrow>
                 \<not> (r_employeeId q = supplied (u_employeeId u) (r_employeeId r)
                    \<and> r_submissionDate q = supplied (u_submissionDate u) (r_submissionDate r))))
       \<and> (createDailyReport st now uuid ins = Inr (r, st') \<longrightarrow>
            (one_report_per_day st' \<longleftrightarrow>
               checkExistingReport st (i_employeeId ins) (date_of_day (i_submissionDate ins))
                 = Inr None))
       \<and> distinct (map r_id (dailyReports (snd (post_reports_submit st now uuid hdr body))))
       \<and> distinct (map r_id (dailyReports (snd (deleteDailyReport st i))))
       \<and> distinct (map r_id (dailyReports (snd (updateDailyReport st i u))))
       \<and> (createDailyReport st now uuid ins = Inr (r, st') \<longrightarrow>
            distinct (map r_id (dailyReports st')))"
proof -
  have 1: "one_report_per_day (snd (post_reports_submit st now uuid hdr body))"
    using assms(1) submit_handler_keeps_invariant [OF assms(1)]
    by (simp add: post_reports_submit_def guarded_def split: sum.splits)
  have 2: "one_report_per_day (snd (deleteDailyReport st i))"
    using assms(1) by (simp add: deleteDailyReport_def one_report_per_day_def distinct_map_filter)
  have 3: "one_report_per_day (snd (updateDailyReport st i u)) \<longleftrightarrow>
            (\<forall>r \<in> set (dailyReports st). \<forall>q \<in> set (dailyReports st).
               r_id r = i \<and> r_id q \<noteq> i \<longrightarrow>
                 \<not> (r_employeeId q = supplied (u_employeeId u) (r_employeeId r)
                    \<and> r_submissionDate q = supplied (u_submissionDate u) (r_submissionDate r)))"
    using update_keys_distinct [OF assms(2) assms(1) [unfolded one_report_per_day_def], of i u]
    by (simp add: updateDailyReport_def one_report_per_day_def Let_def)
  have 4: "one_report_per_day st' \<longleftrightarrow>
               checkExistingReport st (i_employeeId ins) (date_of_day (i_submissionDate ins))
                 = Inr None"
    if c: "createDailyReport st now uuid ins = Inr (r, st')"
    using assms(1) createDailyReport_Inr [OF c]
    by (simp add: one_report_per_day_append checkExistingReport_None)
  have 5: "distinct (map r_id (dailyReports (snd (post_reports_submit st now uuid hdr body))))"
    using assms(2) submit_handler_keeps_ids [OF assms(2)]
    by (simp add: post_reports_submit_def guarded_def split: sum.splits)
  have 6: "distinct (map r_id (dailyReports (snd (deleteDailyReport st i))))"
    using assms(2) by (simp add: deleteDailyReport_def distinct_map_filter)
  have 7: "distinct (map r_id (dailyReports (snd (updateDailyReport st i u))))"
    using assms(2) by (simp only: updateDailyReport_keeps_ids)
  have 8: "distinct (map r_id (dailyReports st'))"
    if c: "createDailyReport st now uuid ins = Inr (r, st')"
    using createDailyReport_keeps_ids [OF assms(2) c] .
  show ?thesis
    using 1 2 3 4 5 6 7 8 by blast
qed

theorem report_store_invariant_witness:
  "one_report_per_day (snd (post_reports_submit ex_db 500 ''r1'' (Some ''Bearer sess_1'') ex_body))
   \<and> snd (post_reports_submit ex_db 500 ''r1'' (Some ''Bearer sess_1'') ex_body)
       = ex_db\<lparr>dailyReports := [ex_report]\<rparr>
   \<and> one_report_per_day (snd (deleteDailyReport ex_two ''r1''))
   \<and> one_report_per_day (snd (updateDailyReport ex_two ''r2'' (no_update\<lparr>u_demos := Some 7\<rparr>)))
   \<and> one_report_per_day
        (snd (updateDailyReport ex_two ''r2''
               (no_update\<lparr>u_employeeId := Some ''EMP002'', u_submissionDate := Some 0\<rparr>)))
   \<and> one_report_per_day
        (snd (updateDailyReport ex_two ''r2'' (no_update\<lparr>u_employeeId := Some ''EMP003''\<rparr>)))
   \<and> \<not> one_report_per_day
        (snd (updateDailyReport ex_two ''r2'' (no_update\<lparr>u_employeeId := Some ''EMP001''\<rparr>)))
   \<and> createDailyReport ex_db 900 ''r3'' ex_insert
       = Inr (ex_report3, ex_db\<lparr>dailyReports := [ex_report3]\<rparr>)
   \<and> one_report_per_day (ex_db\<lparr>dailyReports := [ex_report3]\<rparr>)"
proof -
  have i0: "one_report_per_day ex_db" "distinct (map r_id (dailyReports ex_db))"
    by (simp_all add: one_report_per_day_def ex_db_def)
  have i2: "one_report_per_day ex_two" "distinct (map r_id (dailyReports ex_two))"
    by (simp_all add: one_report_per_day_def ex_two_def ex_report_def ex_report2_def)
  have rows: "set (dailyReports ex_two) = {ex_report, ex_report2}"
    by (simp add: ex_two_def)
  have f: "r_id ex_report = ''r1''" "r_id ex_report2 = ''r2''"
    "r_employeeId ex_report = ''EMP001''" "r_employeeId ex_report2 = ''EMP002''"
    "r_submissionDate ex_report = 0" "r_submissionDate ex_report2 = 0"
    by (simp_all add: ex_report_def ex_report2_def)
  have x: "checkExistingReport ex_db (i_employeeId ex_insert)
             (date_of_day (i_submissionDate ex_insert)) = Inr None"
    by (simp add: checkExistingReport_def ex_db_def)
  have c: "createDailyReport ex_db 900 ''r3'' ex_insert
       = Inr (ex_report3, ex_db\<lparr>dailyReports := [ex_report3]\<rparr>)"
    by (simp add: createDailyReport_def ex_insert_def ex_report3_def ex_db_def Let_def)
  show ?thesis
    using report_store_invariant [OF i0, of 500 "''r1''" "Some ''Bearer sess_1''" ex_body]
      report_store_invariant [OF i2, of _ _ _ _ "''r1''" "no_update\<lparr>u_demos := Some 7\<rparr>"]
      report_store_invariant [OF i2, of _ _ _ _ "''r2''" "no_update\<lparr>u_demos := Some 7\<rparr>"]
      report_store_invariant [OF i2, of _ _ _ _ "''r2''"
        "no_update\<lparr>u_employeeId := Some ''EMP002'', u_submissionDate := Some 0\<rparr>"]
      report_store_invariant [OF i2, of _ _ _ _ "''r2''" "no_update\<lparr>u_employeeId := Some ''EMP003''\<rparr>"]
      report_store_invariant [OF i2, of _ _ _ _ "''r2''" "no_update\<lparr>u_employeeId := Some ''EMP001''\<rparr>"]
      report_store_invariant [OF i0, of 900 "''r3''" _ _ _ _ ex_insert ex_report3
        "ex_db\<lparr>dailyReports := [ex_report3]\<rparr>"]
      x c ex_first_submit
    by (simp add: rows f supplied_def no_update_def)
qed

text \<open>
  C2, as the claim states it (every write of the report store preserves the invariant),
  fails: the table has no uniqueness constraint, \<open>updateDailyReport\<close> sets whatever it
  is given, and \<open>createDailyReport\<close> inserts without a check. Moving report \<open>r2\<close> to the
  employee of \<open>r1\<close>, or creating a second report for the pair of \<open>r1\<close>, leaves two rows
  for one pair.
\<close>

theorem report_store_invariant_counterexample:
  "one_report_per_day ex_two
   \<and> dailyReports (snd (updateDailyReport ex_two ''r2'' (no_update\<lparr>u_employeeId := Some ''EMP001''\<rparr>)))
       = [ex_report, ex_report2\<lparr>r_employeeId := ''EMP001''\<rparr>]
   \<and> \<not> one_report_per_day
         (snd (updateDailyReport ex_two ''r2'' (no_update\<lparr>u_employeeId := Some ''EMP001''\<rparr>)))
   \<and> one_report_per_day (ex_db\<lparr>dailyReports := [ex_report]\<rparr>)
   \<and> createDailyReport (ex_db\<lparr>dailyReports := [ex_report]\<rparr>) 900 ''r3'' ex_insert
       = Inr (ex_report3, ex_db\<lparr>dailyReports := [ex_report, ex_report3]\<rparr>)
   \<and> \<not> one_report_per_day (ex_db\<lparr>dailyReports := [ex_report, ex_report3]\<rparr>)"
  by (simp add: one_report_per_day_def updateDailyReport_def set_report_def supplied_def
        createDailyReport_def ex_two_def ex_report2_def ex_report_def ex_report3_def
        no_update_def ex_insert_def ex_db_def Let_def)

section \<open>Report queries: properties\<close>




text \<open>
  C10. In \<open>getDailyReports\<close> a limit of 0 is the same as no limit and an offset of 0 the same
  as no offset; a positive limit \<open>n\<close> below \<open>2^63\<close> keeps the first \<open>n\<close> rows of what the
  call without a limit returns, and a positive offset \<open>k\<close> below \<open>2^63\<close> drops the first
  \<open>k\<close> rows of what the call without limit and offset returns.
\<close>

theorem limit_offset_applied_when_nonzero:
  "getDailyReports st (f\<lparr>f_limit := Some 0\<rparr>) = getDailyReports st (f\<lparr>f_limit := None\<rparr>)
   \<and> getDailyReports st (f\<lparr>f_offset := Some 0\<rparr>) = getDailyReports st (f\<lparr>f_offset := None\<rparr>)
   \<and> (0 < n \<and> n < 2 ^ 63 \<longrightarrow>
        getDailyReports st (f\<lparr>f_limit := Some n\<rparr>)
          = map_sum id (take (nat n)) (getDailyReports st (f\<lparr>f_limit := None\<rparr>)))
   \<and> (0 < k \<and> k < 2 ^ 63 \<longrightarrow>
        getDailyReports st (f\<lparr>f_limit := None, f_offset := Some k\<rparr>)
          = map_sum id (drop (nat k)) (getDailyReports st (f\<lparr>f_limit := None, f_offset := None\<rparr>)))"
  by (simp add: getDailyReports_def Let_def limit_offset_zero limit_offset_positive_limit
        limit_offset_positive_offset split: sum.splits)

theorem limit_offset_applied_when_nonzero_witness:
  "getDailyReports ex_reports (no_filters\<lparr>f_limit := Some 0\<rparr>)
     = Inr [ex_new, ex_other, ex_mid, ex_old]
   \<and> getDailyReports ex_reports (no_filters\<lparr>f_offset := Some 0\<rparr>)
     = Inr [ex_new, ex_other, ex_mid, ex_old]
   \<and> getDailyReports ex_reports (no_filters\<lparr>f_limit := Some 2\<rparr>) = Inr [ex_new, ex_other]
   \<and> getDailyReports ex_reports (no_filters\<lparr>f_limit := None, f_offset := Some 1\<rparr>)
     = Inr [ex_other, ex_mid, ex_old]"
proof -
  have n: "no_filters\<lparr>f_limit := None\<rparr> = no_filters"
    "no_filters\<lparr>f_offset := None\<rparr> = no_filters"
    "no_filters\<lparr>f_limit := None, f_offset := None\<rparr> = no_filters"
    by (simp_all add: no_filters_def)
  show ?thesis
    using limit_offset_applied_when_nonzero [of ex_reports no_filters 2 1] ex_all
    by (simp add: n)
qed

section \<open>Authentication: properties\<close>

text \<open>
  C5, as the code has it. On every endpoint behind \<open>authenticateEmployee\<close> or
  \<open>authenticateAdmin\<close>, whatever its handler, a valid unexpired token of the other kind
  is answered 401 with the body of an unknown or expired token
  ("Invalid or expired session") and the store is untouched; a request with no token is
  answered 401 too, with the body "No session token provided".
\<close>

theorem wrong_kind_token_is_401:
  assumes "getSession st now t = Some s" and "t \<noteq> []"
      and "t' \<noteq> []" and "getSession st now t' = None"
  shows "(s_userType s \<noteq> ''employee'' \<longrightarrow>
            guarded authenticateEmployee h st now (Some (''Bearer '' @ t))
              = ((401, Msg ''Invalid or expired session''), st))
       \<and> (s_userType s \<noteq> ''admin'' \<longrightarrow>
            guarded authenticateAdmin h st now (Some (''Bearer '' @ t))
              = ((401, Msg ''Invalid or expired session''), st))
       \<and> guarded authenticateEmployee h st now (Some (''Bearer '' @ t'))
              = ((401, Msg ''Invalid or expired session''), st)
       \<and> guarded authenticateAdmin h st now (Some (''Bearer '' @ t'))
              = ((401, Msg ''Invalid or expired session''), st)
       \<and> guarded authenticateEmployee h st now None
              = ((401, Msg ''No session token provided''), st)
       \<and> guarded authenticateAdmin h st now None
              = ((401, Msg ''No session token provided''), st)"
proof -
  have r: "replace_first ''Bearer '' [] (''Bearer '' @ t) = t"
          "replace_first ''Bearer '' [] (''Bearer '' @ t') = t'"
    by (rule replace_first_prefix)+
  show ?thesis
    using assms
    by (simp add: guarded_def authenticateEmployee_def authenticateAdmin_def r
             del: replace_first.simps append.simps)
qed

theorem wrong_kind_token_is_401_witness:
  "guarded authenticateEmployee logout_handler ex_db 500 (Some ''Bearer sess_2'')
     = ((401, Msg ''Invalid or expired session''), ex_db)
   \<and> guarded authenticateAdmin logout_handler ex_db 500 (Some ''Bearer sess_1'')
     = ((401, Msg ''Invalid or expired session''), ex_db)
   \<and> guarded authenticateAdmin logout_handler ex_db 500 (Some ''Bearer sess_2'')
     = ((200, Msg ''Logout successful''), deleteSession ex_db ''sess_2'')
   \<and> guarded authenticateEmployee logout_handler ex_db 500 (Some ''Bearer sess_9'')
     = ((401, Msg ''Invalid or expired session''), ex_db)
   \<and> guarded authenticateEmployee logout_handler ex_db 500 None
     = ((401, Msg ''No session token provided''), ex_db)"
proof -
  have h1: "getSession ex_db 500 ''sess_2'' = Some ex_admin_session"
    by (simp add: getSession_def ex_defs)
  have h1': "getSession ex_db 500 ''sess_1'' = Some ex_employee_session"
    by (simp add: getSession_def ex_defs)
  have h2: "getSession ex_db 500 ''sess_9'' = None"
    by (simp add: getSession_def ex_defs)
  have k: "s_userType ex_admin_session \<noteq> ''employee''"
    "s_userType ex_employee_session \<noteq> ''admin''"
    by (simp_all add: ex_defs)
  have ok: "guarded authenticateAdmin logout_handler ex_db 500 (Some ''Bearer sess_2'')
     = ((200, Msg ''Logout successful''), deleteSession ex_db ''sess_2'')"
    by (simp add: guarded_def authenticateAdmin_def h1 logout_handler_def ex_admin_session_def)
  show ?thesis
    using wrong_kind_token_is_401 [OF h1 _ _ h2, of logout_handler]
      wrong_kind_token_is_401 [OF h1' _ _ h2, of logout_handler] k ok
    by simp
qed

text \<open>
  C5, as the claim states it (the same body for a token of the wrong kind and for no
  token), fails: an admin's valid token on an employee endpoint and no token at all get
  two different bodies.
\<close>

theorem wrong_kind_token_counterexample:
  "getSession ex_db 500 ''sess_2'' = Some ex_admin_session
   \<and> s_userType ex_admin_session = ''admin''
   \<and> fst (guarded authenticateEmployee employee_me_handler ex_db 500 (Some ''Bearer sess_2''))
       = (401, Msg ''Invalid or expired session'')
   \<and> fst (guarded authenticateEmployee employee_me_handler ex_db 500 None)
       = (401, Msg ''No session token provided'')
   \<and> fst (guarded authenticateEmployee employee_me_handler ex_db 500 (Some ''Bearer sess_2''))
       \<noteq> fst (guarded authenticateEmployee employee_me_handler ex_db 500 None)"
  by (simp add: guarded_def authenticateEmployee_def getSession_def ex_defs)

text \<open>
  C4. A login for an identifier with no account and a login for an existing account
  whose password fails verification have the same outcome: credential validation returns
  \<open>null\<close> in both, the login endpoint gives the same response, which is the 401 of the
  endpoint when the body passes the schema, and no session is created in either. This
  holds of the employee login and, independently, of the admin login.
\<close>

theorem login_rejection_indistinguishable:
  "(getEmployeeByEmployeeId st1 employeeId = None
      \<and> getEmployeeByEmployeeId st2 employeeId = Some e
      \<and> \<not> compare password (e_passwordHash e) \<longrightarrow>
        validateEmployeeCredentials compare st1 employeeId password = None
      \<and> validateEmployeeCredentials compare st2 employeeId password = None
      \<and> fst (employee_login compare st1 now1 tok1
                \<lparr>l_employeeId = Some (JStr employeeId), l_password = Some (JStr password)\<rparr>)
        = fst (employee_login compare st2 now2 tok2
                \<lparr>l_employeeId = Some (JStr employeeId), l_password = Some (JStr password)\<rparr>)
      \<and> snd (employee_login compare st1 now1 tok1
                \<lparr>l_employeeId = Some (JStr employeeId), l_password = Some (JStr password)\<rparr>) = st1
      \<and> snd (employee_login compare st2 now2 tok2
                \<lparr>l_employeeId = Some (JStr employeeId), l_password = Some (JStr password)\<rparr>) = st2
      \<and> (employeeId \<noteq> [] \<and> password \<noteq> [] \<longrightarrow>
           fst (employee_login compare st2 now2 tok2
                \<lparr>l_employeeId = Some (JStr employeeId), l_password = Some (JStr password)\<rparr>)
             = (401, Msg ''Invalid employee ID or password'')))
   \<and> (getAdminByUsername st3 username = None
      \<and> getAdminByUsername st4 username = Some a
      \<and> \<not> compare password' (a_passwordHash a) \<longrightarrow>
        validateAdminCredentials compare st3 username password' = None
      \<and> validateAdminCredentials compare st4 username password' = None
      \<and> fst (admin_login compare st3 now1 tok1
                \<lparr>l_username = Some (JStr username), l_adminPassword = Some (JStr password')\<rparr>)
        = fst (admin_login compare st4 now2 tok2
                \<lparr>l_username = Some (JStr username), l_adminPassword = Some (JStr password')\<rparr>)
      \<and> snd (admin_login compare st3 now1 tok1
                \<lparr>l_username = Some (JStr username), l_adminPassword = Some (JStr password')\<rparr>) = st3
      \<and> snd (admin_login compare st4 now2 tok2
                \<lparr>l_username = Some (JStr username), l_adminPassword = Some (JStr password')\<rparr>) = st4
      \<and> (username \<noteq> [] \<and> password' \<noteq> [] \<longrightarrow>
           fst (admin_login compare st4 now2 tok2
                \<lparr>l_username = Some (JStr username), l_adminPassword = Some (JStr password')\<rparr>)
             = (401, Msg ''Invalid username or password'')))"
  by (simp add: validateEmployeeCredentials_def validateAdminCredentials_def
        employee_login_def admin_login_def employeeLoginSchema_parse_def
        adminLoginSchema_parse_def)


theorem login_rejection_indistinguishable_witness:
  "admins (ex_db\<lparr>employees := []\<rparr>) = admins ex_db
   \<and> validateEmployeeCredentials ex_compare (ex_db\<lparr>employees := []\<rparr>) ''EMP001'' ''x'' = None
   \<and> validateEmployeeCredentials ex_compare ex_db ''EMP001'' ''x'' = None
   \<and> validateEmployeeCredentials ex_compare ex_db ''EMP001'' ''1'' = Some ex_employee
   \<and> employee_login ex_compare (ex_db\<lparr>employees := []\<rparr>) 5 ''sess_3''
        \<lparr>l_employeeId = Some (JStr ''EMP001''), l_password = Some (JStr ''x'')\<rparr>
      = ((401, Msg ''Invalid employee ID or password''), ex_db\<lparr>employees := []\<rparr>)
   \<and> employee_login ex_compare ex_db 5 ''sess_3''
        \<lparr>l_employeeId = Some (JStr ''EMP001''), l_password = Some (JStr ''x'')\<rparr>
      = ((401, Msg ''Invalid employee ID or password''), ex_db)
   \<and> admin_login ex_compare (ex_db\<lparr>admins := []\<rparr>) 5 ''sess_3''
        \<lparr>l_username = Some (JStr ''root''), l_adminPassword = Some (JStr ''x'')\<rparr>
      = ((401, Msg ''Invalid username or password''), ex_db\<lparr>admins := []\<rparr>)
   \<and> admin_login ex_compare ex_db 5 ''sess_3''
        \<lparr>l_username = Some (JStr ''root''), l_adminPassword = Some (JStr ''x'')\<rparr>
      = ((401, Msg ''Invalid username or password''), ex_db)"
proof -
  have h1: "getEmployeeByEmployeeId (ex_db\<lparr>employees := []\<rparr>) ''EMP001'' = None"
    by (simp add: getEmployeeByEmployeeId_def)
  have h2: "getEmployeeByEmployeeId ex_db ''EMP001'' = Some ex_employee"
    by (simp add: getEmployeeByEmployeeId_def ex_defs)
  have h3: "\<not> ex_compare ''x'' (e_passwordHash ex_employee)"
    by (simp add: ex_compare_def ex_defs)
  have h4: "getAdminByUsername (ex_db\<lparr>admins := []\<rparr>) ''root'' = None"
    by (simp add: getAdminByUsername_def)
  have h5: "getAdminByUsername ex_db ''root'' = Some ex_admin"
    by (simp add: getAdminByUsername_def ex_defs)
  have h6: "\<not> ex_compare ''x'' (a_passwordHash ex_admin)"
    by (simp add: ex_compare_def ex_defs)
  have ok: "validateEmployeeCredentials ex_compare ex_db ''EMP001'' ''1'' = Some ex_employee"
    by (simp add: validateEmployeeCredentials_def h2) (simp add: ex_compare_def ex_defs)
  show ?thesis
    using login_rejection_indistinguishable
        [of "ex_db\<lparr>employees := []\<rparr>" "''EMP001''" ex_db ex_employee ex_compare "''x''"
            5 "''sess_3''" 5 "''sess_3''"
            "ex_db\<lparr>admins := []\<rparr>" "''root''" ex_db ex_admin "''x''"]
      h1 h2 h3 h4 h5 h6 ok
    by (simp add: prod_eq_iff)
qed

section \<open>Updates: properties\<close>

text \<open>
  C7, as the code has it. In a successful \<open>updateEmployee\<close> every employee row keeps its
  \<open>id\<close> and \<open>createdAt\<close>, the rows with another id are unchanged, \<open>employeeId\<close>,
  \<open>employeeName\<close> and \<open>passwordHash\<close> keep their value when the update does not supply
  them, a non-empty supplied password is stored as its digest \<open>hash salt p\<close>, and
  \<open>updatedAt\<close> of the updated row is set to the time of the call; the other tables are
  unchanged. In \<open>updateDailyReport\<close> every report keeps \<open>id\<close>, \<open>createdAt\<close> and each field
  the update does not supply, and the rows with another id and the other tables are
  unchanged.
\<close>

theorem updates_keep_unsupplied_fields:
  assumes "updateEmployee hash st now salt i updates = Inr (res, st')"
  shows "list_all2
           (\<lambda>e e'. (e_id e \<noteq> i \<longrightarrow> e' = e)
                  \<and> e_id e' = e_id e \<and> e_createdAt e' = e_createdAt e
                  \<and> (p_employeeId updates = None \<longrightarrow> e_employeeId e' = e_employeeId e)
                  \<and> (p_employeeName updates = None \<longrightarrow> e_employeeName e' = e_employeeName e)
                  \<and> (p_passwordHash updates = None \<longrightarrow> e_passwordHash e' = e_passwordHash e)
                  \<and> (e_id e = i \<longrightarrow> e_updatedAt e' = now)
                  \<and> (\<forall>p. e_id e = i \<and> p_passwordHash updates = Some p \<and> p \<noteq> []
                         \<longrightarrow> e_passwordHash e' = hash salt p))
           (employees st) (employees st')
       \<and> dailyReports st' = dailyReports st \<and> admins st' = admins st \<and> sessions st' = sessions st
       \<and> list_all2
           (\<lambda>r r'. (r_id r \<noteq> j \<longrightarrow> r' = r)
                  \<and> r_id r' = r_id r \<and> r_createdAt r' = r_createdAt r
                  \<and> (u_employeeId u = None \<longrightarrow> r_employeeId r' = r_employeeId r)
                  \<and> (u_employeeName u = None \<longrightarrow> r_employeeName r' = r_employeeName r)
                  \<and> (u_numberOfDials u = None \<longrightarrow> r_numberOfDials r' = r_numberOfDials r)
                  \<and> (u_connectedCalls u = None \<longrightarrow> r_connectedCalls r' = r_connectedCalls r)
                  \<and> (u_positiveProspect u = None \<longrightarrow> r_positiveProspect r' = r_positiveProspect r)
                  \<and> (u_deadCalls u = None \<longrightarrow> r_deadCalls r' = r_deadCalls r)
                  \<and> (u_demos u = None \<longrightarrow> r_demos r' = r_demos r)
                  \<and> (u_admission u = None \<longrightarrow> r_admission r' = r_admission r)
                  \<and> (u_clientVisit u = None \<longrightarrow> r_clientVisit r' = r_clientVisit r)
                  \<and> (u_clientClosing u = None \<longrightarrow> r_clientClosing r' = r_clientClosing r)
                  \<and> (u_backdoorCalls u = None \<longrightarrow> r_backdoorCalls r' = r_backdoorCalls r)
                  \<and> (u_postersDone u = None \<longrightarrow> r_postersDone r' = r_postersDone r)
                  \<and> (u_submissionDate u = None \<longrightarrow> r_submissionDate r' = r_submissionDate r))
           (dailyReports st) (dailyReports (snd (updateDailyReport st j u)))
       \<and> employees (snd (updateDailyReport st j u)) = employees st
       \<and> admins (snd (updateDailyReport st j u)) = admins st
       \<and> sessions (snd (updateDailyReport st j u)) = sessions st"
proof -
  note e = updateEmployee_Inr [OF assms]
  have 1: "list_all2
           (\<lambda>e e'. (e_id e \<noteq> i \<longrightarrow> e' = e)
                  \<and> e_id e' = e_id e \<and> e_createdAt e' = e_createdAt e
                  \<and> (p_employeeId updates = None \<longrightarrow> e_employeeId e' = e_employeeId e)
                  \<and> (p_employeeName updates = None \<longrightarrow> e_employeeName e' = e_employeeName e)
                  \<and> (p_passwordHash updates = None \<longrightarrow> e_passwordHash e' = e_passwordHash e)
                  \<and> (e_id e = i \<longrightarrow> e_updatedAt e' = now)
                  \<and> (\<forall>p. e_id e = i \<and> p_passwordHash updates = Some p \<and> p \<noteq> []
                         \<longrightarrow> e_passwordHash e' = hash salt p))
           (employees st) (employees st')"
    unfolding e by (simp add: list_all2_map2 list_all2_same supplied_def)
  have 2: "dailyReports st' = dailyReports st \<and> admins st' = admins st \<and> sessions st' = sessions st"
    unfolding e by simp
  have 3: "list_all2
           (\<lambda>r r'. (r_id r \<noteq> j \<longrightarrow> r' = r)
                  \<and> r_id r' = r_id r \<and> r_createdAt r' = r_createdAt r
                  \<and> (u_employeeId u = None \<longrightarrow> r_employeeId r' = r_employeeId r)
                  \<and> (u_employeeName u = None \<longrightarrow> r_employeeName r' = r_employeeName r)
                  \<and> (u_numberOfDials u = None \<longrightarrow> r_numberOfDials r' = r_numberOfDials r)
                  \<and> (u_connectedCalls u = None \<longrightarrow> r_connectedCalls r' = r_connectedCalls r)
                  \<and> (u_positiveProspect u = None \<longrightarrow> r_positiveProspect r' = r_positiveProspect r)
                  \<and> (u_deadCalls u = None \<longrightarrow> r_deadCalls r' = r_deadCalls r)
                  \<and> (u_demos u = None \<longrightarrow> r_demos r' = r_demos r)
                  \<and> (u_admission u = None \<longrightarrow> r_admission r' = r_admission r)
                  \<and> (u_clientVisit u = None \<longrightarrow> r_clientVisit r' = r_clientVisit r)
                  \<and> (u_clientClosing u = None \<longrightarrow> r_clientClosing r' = r_clientClosing r)
                  \<and> (u_backdoorCalls u = None \<longrightarrow> r_backdoorCalls r' = r_backdoorCalls r)
                  \<and> (u_postersDone u = None \<longrightarrow> r_postersDone r' = r_postersDone r)
                  \<and> (u_submissionDate u = None \<longrightarrow> r_submissionDate r' = r_submissionDate r))
           (dailyReports st) (dailyReports (snd (updateDailyReport st j u)))"
    by (simp add: updateDailyReport_def Let_def list_all2_map2 list_all2_same set_report_def
          supplied_def)
  have 4: "employees (snd (updateDailyReport st j u)) = employees st
       \<and> admins (snd (updateDailyReport st j u)) = admins st
       \<and> sessions (snd (updateDailyReport st j u)) = sessions st"
    by (simp add: updateDailyReport_def Let_def)
  show ?thesis
    using 1 2 3 4 by blast
qed

theorem updates_keep_unsupplied_fields_witness:
  "updateEmployee ex_hash ex_db 2000 ''salt'' ''u1''
       (no_employee_update\<lparr>p_employeeName := Some ''Asha K'', p_passwordHash := Some ''pw''\<rparr>)
     = Inr (Some ex_renamed, ex_db\<lparr>employees := [ex_renamed]\<rparr>)
   \<and> e_employeeId ex_renamed = e_employeeId ex_employee
   \<and> e_passwordHash ex_renamed = ex_hash ''salt'' ''pw''
   \<and> e_updatedAt ex_renamed = 2000
   \<and> dailyReports (snd (updateDailyReport ex_two ''r2'' (no_update\<lparr>u_demos := Some 7\<rparr>)))
       = [ex_report, ex_report2\<lparr>r_demos := 7\<rparr>]"
proof -
  have u: "updateEmployee ex_hash ex_db 2000 ''salt'' ''u1''
       (no_employee_update\<lparr>p_employeeName := Some ''Asha K'', p_passwordHash := Some ''pw''\<rparr>)
     = Inr (Some ex_renamed, ex_db\<lparr>employees := [ex_renamed]\<rparr>)"
    by (simp add: updateEmployee_def supplied_def no_employee_update_def ex_hash_def
          ex_renamed_def ex_db_def ex_employee_def Let_def)
  have v: "dailyReports (snd (updateDailyReport ex_two ''r2'' (no_update\<lparr>u_demos := Some 7\<rparr>)))
       = [ex_report, ex_report2\<lparr>r_demos := 7\<rparr>]"
    by (simp add: updateDailyReport_def set_report_def supplied_def ex_two_def ex_report2_def
          ex_report_def no_update_def Let_def)
  have w: "e_employeeId ex_renamed = e_employeeId ex_employee
     \<and> e_passwordHash ex_renamed = ex_hash ''salt'' ''pw'' \<and> e_updatedAt ex_renamed = 2000"
    by (simp add: ex_renamed_def ex_hash_def ex_employee_def)
  show ?thesis
    using updates_keep_unsupplied_fields [OF u, of "''r2''" "no_update\<lparr>u_demos := Some 7\<rparr>"] u v w
    by simp
qed

text \<open>
  C7, as the claim states it, fails on \<open>updateEmployee\<close>: an update that supplies nothing
  still changes \<open>updatedAt\<close> (from 0 to 2000 here), and a supplied password that is the
  empty string is stored as it is, not as a digest.
\<close>

theorem updateEmployee_unsupplied_counterexample:
  "updateEmployee ex_hash ex_db 2000 ''salt'' ''u1'' no_employee_update
     = Inr (Some (ex_employee\<lparr>e_updatedAt := 2000\<rparr>),
            ex_db\<lparr>employees := [ex_employee\<lparr>e_updatedAt := 2000\<rparr>]\<rparr>)
   \<and> e_updatedAt ex_employee = 0
   \<and> updateEmployee ex_hash ex_db 2000 ''salt'' ''u1''
        (no_employee_update\<lparr>p_passwordHash := Some []\<rparr>)
     = Inr (Some (ex_employee\<lparr>e_passwordHash := [], e_updatedAt := 2000\<rparr>),
            ex_db\<lparr>employees := [ex_employee\<lparr>e_passwordHash := [], e_updatedAt := 2000\<rparr>]\<rparr>)"
  by (simp add: updateEmployee_def supplied_def no_employee_update_def ex_db_def
        ex_employee_def Let_def)

end
